theory Spec2Isabelle
  imports Main
begin

section \<open>Values of a configuration document\<close>

text \<open>
  The configuration artifact is a JSON text. What \<open>json.load\<close> makes of it is a JSON
  value: an object, which Python holds as a dictionary from keys to JSON values, or a
  value of another kind. Of a value under a key, \<open>JOther\<close> stands for an array, a nested
  object or a real number: the loader reads nothing of such a value but its truth value
  (non-empty, nonzero), which the constructor carries. Every widget setter rejects it
  (for a real number this is the behaviour of the binding from Python 3.10 on).
\<close>

datatype json = JNull | JBool bool | JInt int | JStr string | JOther bool

type_synonym config = "string \<rightharpoonup> json"

text \<open>The value handed to \<open>load_config_from_dict\<close>: a dictionary, or anything else.\<close>

datatype document = Object config | Not_object

datatype error = ValueError | TypeError | AttributeError | OverflowError

text \<open>
  \<open>config.get(k, d)\<close>. Only a dictionary has the method: on a list, a string, a number,
  a bool or None the attribute access raises AttributeError.
\<close>

definition get :: "document \<Rightarrow> string \<Rightarrow> json \<Rightarrow> error + json" where
  "get config k d =
     (case config of
        Object dict \<Rightarrow> Inr (case dict k of None \<Rightarrow> d | Some v \<Rightarrow> v)
      | Not_object \<Rightarrow> Inl AttributeError)"

text \<open>Python's truth value of a JSON value, as \<open>if image_file:\<close> reads it.\<close>

fun truthy :: "json \<Rightarrow> bool" where
  "truthy JNull = False"
| "truthy (JBool b) = b"
| "truthy (JInt n) = (n \<noteq> 0)"
| "truthy (JStr s) = (s \<noteq> [])"
| "truthy (JOther b) = b"

section \<open>The system\<close>

text \<open>
  Texts are strings of bytes: a Python string in its UTF-8 encoding.

  What a call of the process interface does: it returns, it raises (the text of the
  exception), or it blocks and never returns. The pipes of the process are opened with
  \<open>encoding='utf-8', errors='ignore'\<close>: a read drops the bytes that are no UTF-8 and
  never raises UnicodeDecodeError, so the two handlers of that exception in \<open>run\<close> are
  never entered and a decoding error is not among the outcomes.
\<close>

datatype 'a outcome = Returns 'a | Raises string | Blocks

text \<open>
  The bytes of a stream, in pieces: a stretch of text, or a stretch of bytes that are no
  UTF-8. Decoding with \<open>errors='ignore'\<close> keeps the text and drops the rest.
\<close>

datatype piece = Text string | Undecodable

fun decode_ignore :: "piece list \<Rightarrow> string" where
  "decode_ignore [] = []"
| "decode_ignore (Text s # ps) = s @ decode_ignore ps"
| "decode_ignore (Undecodable # ps) = decode_ignore ps"

text \<open>
  A started process, as the thread observes it. \<open>stdout_readline\<close> lists the outcomes of
  calls of \<open>readline\<close> made while the loop goes on: a decoded line that is returned,
  the empty string returned at the end of the stream while the process is still alive
  (\<open>poll()\<close> is None), an exception, or a call that never returns (the tool neither
  writes nor closes its output: it runs for ever, or it waits for room in the pipe of its
  error stream, which the thread reads only after the loop). What follows the listed
  calls is told by \<open>returncode\<close>. With an exit status, \<open>readline\<close> returns the
  empty string and \<open>poll()\<close> the status: the loop ends. With None the process never
  exits and the loop goes on for ever, on the empty string or on further lines; the
  listed calls are then a first part of an endless run. \<open>stderr_read\<close> is the outcome
  of reading the error stream after the loop, the stream given by its pieces.
\<close>

record process =
  stdout_readline :: "string outcome list"
  returncode :: "int option"
  stderr_read :: "piece list outcome"

text \<open>
  What the program asks of the platform: \<open>os.path.join\<close> with two arguments and
  \<open>os.path.dirname\<close> (the functions of \<open>posixpath\<close> or of \<open>ntpath\<close>, according to the
  platform), whether a path exists, the interpreter's path, what starting a command gives
  (a process, or the text of the exception raised), the directory of the program, whether
  creating a directory or writing a file raises (the text of the exception), what opening
  and reading a file gives (its bytes, or the text of the exception), and what
  \<open>json.load\<close> makes of bytes (a JSON value, or the text of the exception raised on bytes
  that it cannot decode or parse).
\<close>

record world =
  path_join :: "string \<Rightarrow> string \<Rightarrow> string"
  path_dirname :: "string \<Rightarrow> string"
  path_exists :: "string \<Rightarrow> bool"
  executable :: string
  popen :: "string list \<Rightarrow> string + process"
  script_dir :: string
  makedirs :: "string \<Rightarrow> string option"
  write_json :: "string \<Rightarrow> string option"
  read_file :: "string \<Rightarrow> string + string"
  json_load :: "string \<Rightarrow> string + document"

subsection \<open>The path functions of POSIX\<close>

text \<open>
  \<open>posixpath.join\<close> with two arguments and \<open>posixpath.dirname\<close>: the separator is the
  slash. They serve in the examples; the statements are made for every pair of path
  functions.
\<close>

definition sep :: char where
  "sep = CHR ''/''"

definition posix_join :: "string \<Rightarrow> string \<Rightarrow> string" where
  "posix_join a b =
     (if b \<noteq> [] \<and> hd b = sep then b
      else if a = [] \<or> last a = sep then a @ b
      else a @ sep # b)"

definition rstrip_sep :: "string \<Rightarrow> string" where
  "rstrip_sep s = rev (dropWhile (\<lambda>c. c = sep) (rev s))"

definition posix_dirname :: "string \<Rightarrow> string" where
  "posix_dirname p =
     (let head = rev (dropWhile (\<lambda>c. c \<noteq> sep) (rev p))
      in if head \<noteq> [] \<and> head \<noteq> replicate (length head) sep then rstrip_sep head else head)"

section \<open>The form\<close>

text \<open>
  The state of \<open>SPIFFSAssetsGUI\<close> that the configuration code reads and writes: one field
  for each widget, holding its text, value, check state or current text.
\<close>

record gui =
  assets_path_edit :: string
  output_path_edit :: string
  main_path_edit :: string
  script_path_edit :: string
  name_length_spin :: int
  split_height_spin :: int
  assets_size_edit :: string
  support_jpg_cb :: bool
  support_png_cb :: bool
  support_sjpg_cb :: bool
  support_spng_cb :: bool
  support_qoi_cb :: bool
  support_sqoi_cb :: bool
  support_raw_cb :: bool
  lvgl_ver_combo :: string
  support_raw_cf_combo :: string
  support_raw_ff_combo :: string
  support_raw_dither_cb :: bool
  support_raw_bgr_cb :: bool
  generate_btn_enabled :: bool
  progress_bar_visible :: bool
  output_text :: "string list"

text \<open>The items of the three combo boxes (\<open>setup_advanced_tab\<close>).\<close>

definition lvgl_ver_items :: "string list" where
  "lvgl_ver_items = [''8.3.0'', ''9.0.0'', ''9.1.0'', ''9.2.0'']"

definition raw_cf_items :: "string list" where
  "raw_cf_items = [''TRUE_COLOR'', ''TRUE_COLOR_ALPHA'', ''INDEXED_1BIT'',
                   ''INDEXED_2BIT'', ''INDEXED_4BIT'', ''INDEXED_8BIT'']"

definition raw_ff_items :: "string list" where
  "raw_ff_items = [''C_ARRAY'', ''BIN'']"

text \<open>
  The widgets as \<open>init_ui\<close> leaves them: the spin boxes at 32 and 16, the partition size
  text, the four checked boxes, the current texts of the combo boxes (the first item where
  none is set) and the default script path.
\<close>

definition init_ui :: gui where
  "init_ui = \<lparr> assets_path_edit = [], output_path_edit = [], main_path_edit = [],
     script_path_edit = ''./spiffs_assets_gen.py'',
     name_length_spin = 32, split_height_spin = 16, assets_size_edit = ''0x100000'',
     support_jpg_cb = True, support_png_cb = True,
     support_sjpg_cb = True, support_spng_cb = True,
     support_qoi_cb = False, support_sqoi_cb = False, support_raw_cb = False,
     lvgl_ver_combo = ''9.0.0'', support_raw_cf_combo = ''TRUE_COLOR'',
     support_raw_ff_combo = ''BIN'',
     support_raw_dither_cb = False, support_raw_bgr_cb = False,
     generate_btn_enabled = True, progress_bar_visible = False, output_text = [] \<rparr>"

subsection \<open>Widget setters\<close>

text \<open>
  What the Qt binding does with the argument it is handed. \<open>QLineEdit.setText\<close> takes a
  string. \<open>QSpinBox.setValue\<close> takes an integer (a Python bool is one) that fits a C
  \<open>int\<close>, and bounds it by the range of the box. \<open>QCheckBox.setChecked\<close> takes a bool or
  an integer. \<open>QComboBox.setCurrentText\<close> on a box that is not editable selects the item
  with that text and does nothing when there is none.
\<close>

definition setText :: "json \<Rightarrow> error + string" where
  "setText v = (case v of JStr s \<Rightarrow> Inr s | _ \<Rightarrow> Inl TypeError)"

definition c_int :: "int \<Rightarrow> bool" where
  "c_int n = (- 2147483648 \<le> n \<and> n \<le> 2147483647)"

definition bound :: "int \<Rightarrow> int \<Rightarrow> int \<Rightarrow> int" where
  "bound lo hi n = max lo (min hi n)"

definition setValue :: "int \<Rightarrow> int \<Rightarrow> json \<Rightarrow> error + int" where
  "setValue lo hi v =
     (case v of
        JInt n \<Rightarrow> if c_int n then Inr (bound lo hi n) else Inl OverflowError
      | JBool b \<Rightarrow> Inr (bound lo hi (if b then 1 else 0))
      | _ \<Rightarrow> Inl TypeError)"

definition setChecked :: "json \<Rightarrow> error + bool" where
  "setChecked v =
     (case v of JBool b \<Rightarrow> Inr b | JInt n \<Rightarrow> Inr (n \<noteq> 0) | _ \<Rightarrow> Inl TypeError)"

definition setCurrentText :: "string list \<Rightarrow> string \<Rightarrow> json \<Rightarrow> error + string" where
  "setCurrentText items cur v =
     (case v of JStr s \<Rightarrow> Inr (if s \<in> set items then s else cur) | _ \<Rightarrow> Inl TypeError)"

subsection \<open>Building the configuration\<close>

fun comma_join :: "string list \<Rightarrow> string" where
  "comma_join [] = []"
| "comma_join [x] = x"
| "comma_join (x # y # ys) = x @ '','' @ comma_join (y # ys)"

definition formats :: "gui \<Rightarrow> string list" where
  "formats f = (if support_jpg_cb f then [''.jpg''] else [])
             @ (if support_png_cb f then [''.png''] else [])"

definition get_support_formats :: "gui \<Rightarrow> string" where
  "get_support_formats f = comma_join (formats f)"

text \<open>
  \<open>generate_config\<close> raises ValueError on an empty output directory and otherwise
  returns the dictionary of the values the widgets hold. It makes no other check.
\<close>

definition generate_config :: "world \<Rightarrow> gui \<Rightarrow> error + config" where
  "generate_config w f =
     (if output_path_edit f = [] then Inl ValueError
      else Inr (map_of
        [(''assets_path'', JStr (assets_path_edit f)),
         (''image_file'', JStr (path_join w (output_path_edit f) ''assets.bin'')),
         (''main_path'', JStr (main_path_edit f)),
         (''name_length'', JInt (name_length_spin f)),
         (''split_height'', JInt (split_height_spin f)),
         (''support_format'', JStr (get_support_formats f)),
         (''support_spng'', JBool (support_spng_cb f)),
         (''support_sjpg'', JBool (support_sjpg_cb f)),
         (''support_qoi'', JBool (support_qoi_cb f)),
         (''support_sqoi'', JBool (support_sqoi_cb f)),
         (''support_raw'', JBool (support_raw_cb f)),
         (''assets_size'', JStr (assets_size_edit f)),
         (''lvgl_ver'', JStr (lvgl_ver_combo f)),
         (''support_raw_cf'', JStr (support_raw_cf_combo f)),
         (''support_raw_ff'', JStr (support_raw_ff_combo f)),
         (''support_raw_dither'', JBool (support_raw_dither_cb f)),
         (''support_raw_bgr'', JBool (support_raw_bgr_cb f))]))"

subsection \<open>Loading a configuration\<close>

text \<open>\<open>s.split(",")\<close>: the pieces between the commas, one more than there are commas.\<close>

fun split_comma :: "string \<Rightarrow> string list" where
  "split_comma [] = [[]]"
| "split_comma (c # cs) =
     (if c = CHR '','' then [] # split_comma cs
      else (case split_comma cs of [] \<Rightarrow> [[c]] | w # ws \<Rightarrow> (c # w) # ws))"

text \<open>
  \<open>load_config_from_dict\<close> is a sequence of statements, each of which may raise. A
  statement is a function from the form to an error or the updated form; the sequence
  stops at the first error and keeps what the statements before it have written.
\<close>

type_synonym stmt = "gui \<Rightarrow> error + gui"

fun run_stmts :: "stmt list \<Rightarrow> gui \<Rightarrow> error option \<times> gui" where
  "run_stmts [] f = (None, f)"
| "run_stmts (s # ss) f = (case s f of Inl e \<Rightarrow> (Some e, f) | Inr f' \<Rightarrow> run_stmts ss f')"

text \<open>
  A statement \<open>widget.set(config.get(k, d))\<close>: the argument is evaluated, the setter is
  called with it, and the widget takes what the setter gives; an exception of either
  call leaves the widget as it was.
\<close>

definition call :: "error + 'a \<Rightarrow> ('a \<Rightarrow> error + 'b) \<Rightarrow> error + 'b" where
  "call r g = (case r of Inl e \<Rightarrow> Inl e | Inr v \<Rightarrow> g v)"

definition assign :: "error + 'a \<Rightarrow> ('a \<Rightarrow> gui) \<Rightarrow> error + gui" where
  "assign r upd = (case r of Inl e \<Rightarrow> Inl e | Inr x \<Rightarrow> Inr (upd x))"

definition load_assets_path :: "document \<Rightarrow> stmt" where
  "load_assets_path config f =
     assign (call (get config ''assets_path'' (JStr [])) setText)
       (\<lambda>s. f\<lparr>assets_path_edit := s\<rparr>)"

text \<open>
  The output directory is taken from \<open>image_file\<close> when that value is true;
  \<open>os.path.dirname\<close> raises TypeError on a value that is not a string.
\<close>

definition load_image_file :: "world \<Rightarrow> document \<Rightarrow> stmt" where
  "load_image_file w config f =
     (case get config ''image_file'' (JStr []) of
        Inl e \<Rightarrow> Inl e
      | Inr image_file \<Rightarrow>
          if truthy image_file
          then (case image_file of
                  JStr p \<Rightarrow> Inr (f\<lparr>output_path_edit := path_dirname w p\<rparr>)
                | _ \<Rightarrow> Inl TypeError)
          else Inr f)"

definition load_main_path :: "document \<Rightarrow> stmt" where
  "load_main_path config f =
     assign (call (get config ''main_path'' (JStr [])) setText)
       (\<lambda>s. f\<lparr>main_path_edit := s\<rparr>)"

definition load_name_length :: "document \<Rightarrow> stmt" where
  "load_name_length config f =
     assign (call (get config ''name_length'' (JInt 32)) (setValue 8 128))
       (\<lambda>n. f\<lparr>name_length_spin := n\<rparr>)"

definition load_split_height :: "document \<Rightarrow> stmt" where
  "load_split_height config f =
     assign (call (get config ''split_height'' (JInt 16)) (setValue 1 1024))
       (\<lambda>n. f\<lparr>split_height_spin := n\<rparr>)"

definition load_assets_size :: "document \<Rightarrow> stmt" where
  "load_assets_size config f =
     assign (call (get config ''assets_size'' (JStr ''0x100000'')) setText)
       (\<lambda>s. f\<lparr>assets_size_edit := s\<rparr>)"

text \<open>
  \<open>formats = config.get("support_format", "").split(",")\<close> raises AttributeError on a
  value that is not a string; the two boxes are then set from membership in the pieces.
\<close>

definition load_support_format :: "document \<Rightarrow> stmt" where
  "load_support_format config f =
     (case get config ''support_format'' (JStr []) of
        Inl e \<Rightarrow> Inl e
      | Inr (JStr s) \<Rightarrow> Inr (f\<lparr>support_jpg_cb := ''.jpg'' \<in> set (split_comma s),
                               support_png_cb := ''.png'' \<in> set (split_comma s)\<rparr>)
      | Inr _ \<Rightarrow> Inl AttributeError)"

definition load_support_spng :: "document \<Rightarrow> stmt" where
  "load_support_spng config f =
     assign (call (get config ''support_spng'' (JBool False)) setChecked)
       (\<lambda>b. f\<lparr>support_spng_cb := b\<rparr>)"

definition load_support_sjpg :: "document \<Rightarrow> stmt" where
  "load_support_sjpg config f =
     assign (call (get config ''support_sjpg'' (JBool False)) setChecked)
       (\<lambda>b. f\<lparr>support_sjpg_cb := b\<rparr>)"

definition load_support_qoi :: "document \<Rightarrow> stmt" where
  "load_support_qoi config f =
     assign (call (get config ''support_qoi'' (JBool False)) setChecked)
       (\<lambda>b. f\<lparr>support_qoi_cb := b\<rparr>)"

definition load_support_sqoi :: "document \<Rightarrow> stmt" where
  "load_support_sqoi config f =
     assign (call (get config ''support_sqoi'' (JBool False)) setChecked)
       (\<lambda>b. f\<lparr>support_sqoi_cb := b\<rparr>)"

definition load_support_raw :: "document \<Rightarrow> stmt" where
  "load_support_raw config f =
     assign (call (get config ''support_raw'' (JBool False)) setChecked)
       (\<lambda>b. f\<lparr>support_raw_cb := b\<rparr>)"

definition load_lvgl_ver :: "document \<Rightarrow> stmt" where
  "load_lvgl_ver config f =
     assign (call (get config ''lvgl_ver'' (JStr ''9.0.0''))
               (setCurrentText lvgl_ver_items (lvgl_ver_combo f)))
       (\<lambda>s. f\<lparr>lvgl_ver_combo := s\<rparr>)"

definition load_support_raw_cf :: "document \<Rightarrow> stmt" where
  "load_support_raw_cf config f =
     assign (call (get config ''support_raw_cf'' (JStr ''TRUE_COLOR''))
               (setCurrentText raw_cf_items (support_raw_cf_combo f)))
       (\<lambda>s. f\<lparr>support_raw_cf_combo := s\<rparr>)"

definition load_support_raw_ff :: "document \<Rightarrow> stmt" where
  "load_support_raw_ff config f =
     assign (call (get config ''support_raw_ff'' (JStr ''BIN''))
               (setCurrentText raw_ff_items (support_raw_ff_combo f)))
       (\<lambda>s. f\<lparr>support_raw_ff_combo := s\<rparr>)"

definition load_support_raw_dither :: "document \<Rightarrow> stmt" where
  "load_support_raw_dither config f =
     assign (call (get config ''support_raw_dither'' (JBool False)) setChecked)
       (\<lambda>b. f\<lparr>support_raw_dither_cb := b\<rparr>)"

definition load_support_raw_bgr :: "document \<Rightarrow> stmt" where
  "load_support_raw_bgr config f =
     assign (call (get config ''support_raw_bgr'' (JBool False)) setChecked)
       (\<lambda>b. f\<lparr>support_raw_bgr_cb := b\<rparr>)"

definition load_stmts :: "world \<Rightarrow> document \<Rightarrow> stmt list" where
  "load_stmts w config =
     [load_assets_path config, load_image_file w config, load_main_path config,
      load_name_length config, load_split_height config, load_assets_size config,
      load_support_format config,
      load_support_spng config, load_support_sjpg config, load_support_qoi config,
      load_support_sqoi config, load_support_raw config,
      load_lvgl_ver config, load_support_raw_cf config, load_support_raw_ff config,
      load_support_raw_dither config, load_support_raw_bgr config]"

definition load_config_from_dict :: "world \<Rightarrow> gui \<Rightarrow> document \<Rightarrow> error option \<times> gui" where
  "load_config_from_dict w f config = run_stmts (load_stmts w config) f"

definition default_config :: config where
  "default_config = map_of
     [(''assets_path'', JStr []), (''image_file'', JStr []), (''main_path'', JStr []),
      (''name_length'', JInt 32), (''split_height'', JInt 16),
      (''support_format'', JStr ''.jpg,.png''),
      (''support_spng'', JBool True), (''support_sjpg'', JBool True),
      (''support_qoi'', JBool False), (''support_sqoi'', JBool False),
      (''support_raw'', JBool False),
      (''assets_size'', JStr ''0x100000''), (''lvgl_ver'', JStr ''9.0.0''),
      (''support_raw_cf'', JStr ''TRUE_COLOR''), (''support_raw_ff'', JStr ''BIN''),
      (''support_raw_dither'', JBool False), (''support_raw_bgr'', JBool False)]"


text \<open>
  What the widgets guarantee of the form at every moment: a spin box holds a value of its
  range and a combo box shows one of its items.
\<close>

definition form_ok :: "gui \<Rightarrow> bool" where
  "form_ok f \<longleftrightarrow>
     8 \<le> name_length_spin f \<and> name_length_spin f \<le> 128 \<and>
     1 \<le> split_height_spin f \<and> split_height_spin f \<le> 1024 \<and>
     lvgl_ver_combo f \<in> set lvgl_ver_items \<and>
     support_raw_cf_combo f \<in> set raw_cf_items \<and>
     support_raw_ff_combo f \<in> set raw_ff_items"

section \<open>The worker thread\<close>

text \<open>
  The two signals of \<open>GenerateThread\<close> are the events it emits, in the order of emission.
\<close>

datatype event = Progress string | Finished bool string

record thread =
  config_path :: string
  script_path :: string

text \<open>The text before the script path in the message of a missing script ("script file not found: ").\<close>

definition msg_not_found :: string where
  "msg_not_found =
     [CHR 0xE6, CHR 0x89, CHR 0xBE, CHR 0xE4, CHR 0xB8, CHR 0x8D, CHR 0xE5, CHR 0x88, CHR
      0xB0, CHR 0xE8, CHR 0x84, CHR 0x9A, CHR 0xE6, CHR 0x9C, CHR 0xAC, CHR 0xE6, CHR 0x96,
      CHR 0x87, CHR 0xE4, CHR 0xBB, CHR 0xB6, CHR 0x3A, CHR 0x20]"

text \<open>The text before the command line in the first progress message ("executing command: ").\<close>

definition msg_exec :: string where
  "msg_exec =
     [CHR 0xE6, CHR 0x89, CHR 0xA7, CHR 0xE8, CHR 0xA1, CHR 0x8C, CHR 0xE5, CHR 0x91, CHR
      0xBD, CHR 0xE4, CHR 0xBB, CHR 0xA4, CHR 0x3A, CHR 0x20]"

text \<open>The message of a successful run ("generation finished!").\<close>

definition msg_done :: string where
  "msg_done =
     [CHR 0xE7, CHR 0x94, CHR 0x9F, CHR 0xE6, CHR 0x88, CHR 0x90, CHR 0xE5, CHR 0xAE, CHR
      0x8C, CHR 0xE6, CHR 0x88, CHR 0x90, CHR 0x21]"

text \<open>The text before the return code in the message of a failed run without error text ("script failed, return code: ").\<close>

definition msg_failed :: string where
  "msg_failed =
     [CHR 0xE8, CHR 0x84, CHR 0x9A, CHR 0xE6, CHR 0x9C, CHR 0xAC, CHR 0xE6, CHR 0x89, CHR
      0xA7, CHR 0xE8, CHR 0xA1, CHR 0x8C, CHR 0xE5, CHR 0xA4, CHR 0xB1, CHR 0xE8, CHR 0xB4,
      CHR 0xA5, CHR 0xEF, CHR 0xBC, CHR 0x8C, CHR 0xE8, CHR 0xBF, CHR 0x94, CHR 0xE5, CHR
      0x9B, CHR 0x9E, CHR 0xE7, CHR 0xA0, CHR 0x81, CHR 0x3A, CHR 0x20]"

text \<open>The text before the exception text in the message of a run that raised ("execution error: ").\<close>

definition msg_error :: string where
  "msg_error =
     [CHR 0xE6, CHR 0x89, CHR 0xA7, CHR 0xE8, CHR 0xA1, CHR 0x8C, CHR 0xE5, CHR 0x87, CHR
      0xBA, CHR 0xE9, CHR 0x94, CHR 0x99, CHR 0x3A, CHR 0x20]"

text \<open>
  \<open>s.strip()\<close> removes the white space of Unicode at both ends: the characters U+0009 to
  U+000D, U+001C to U+0020, U+0085, U+00A0, U+1680, U+2000 to U+200A, U+2028, U+2029,
  U+202F, U+205F and U+3000. On the UTF-8 encoding of a text these are the bytes and the
  sequences of two and three bytes below; a character of the text begins where such a
  sequence begins, at the start of the text as at its end.
\<close>

definition space1 :: "char \<Rightarrow> bool" where
  "space1 a = (let n = (of_char a :: nat) in (9 \<le> n \<and> n \<le> 13) \<or> (28 \<le> n \<and> n \<le> 32))"

definition space2 :: "char \<Rightarrow> char \<Rightarrow> bool" where
  "space2 a b = (a = CHR 0xC2 \<and> (b = CHR 0x85 \<or> b = CHR 0xA0))"

definition space3 :: "char \<Rightarrow> char \<Rightarrow> char \<Rightarrow> bool" where
  "space3 a b c =
     ((a = CHR 0xE1 \<and> b = CHR 0x9A \<and> c = CHR 0x80) \<or>
      (a = CHR 0xE2 \<and> b = CHR 0x80 \<and>
         (let n = (of_char c :: nat)
          in (128 \<le> n \<and> n \<le> 138) \<or> n = 168 \<or> n = 169 \<or> n = 175)) \<or>
      (a = CHR 0xE2 \<and> b = CHR 0x81 \<and> c = CHR 0x9F) \<or>
      (a = CHR 0xE3 \<and> b = CHR 0x80 \<and> c = CHR 0x80))"

text \<open>The white space at the start of a text is removed, character by character.\<close>

fun lstrip :: "string \<Rightarrow> string" where
  "lstrip (a # b # c # s) =
     (if space1 a then lstrip (b # c # s)
      else if space2 a b then lstrip (c # s)
      else if space3 a b c then lstrip s
      else a # b # c # s)"
| "lstrip [a, b] = (if space1 a then lstrip [b] else if space2 a b then [] else [a, b])"
| "lstrip [a] = (if space1 a then [] else [a])"
| "lstrip [] = []"

text \<open>The same on the reversed text, whose first byte is the last byte of the last character.\<close>

fun rstrip_rev :: "string \<Rightarrow> string" where
  "rstrip_rev (c # b # a # s) =
     (if space1 c then rstrip_rev (b # a # s)
      else if space2 b c then rstrip_rev (a # s)
      else if space3 a b c then rstrip_rev s
      else c # b # a # s)"
| "rstrip_rev [b, a] = (if space1 b then rstrip_rev [a] else if space2 a b then [] else [b, a])"
| "rstrip_rev [a] = (if space1 a then [] else [a])"
| "rstrip_rev [] = []"

definition strip :: "string \<Rightarrow> string" where
  "strip s = rev (rstrip_rev (rev (lstrip s)))"

fun space_join :: "string list \<Rightarrow> string" where
  "space_join [] = []"
| "space_join [x] = x"
| "space_join (x # y # ys) = x @ '' '' @ space_join (y # ys)"

text \<open>\<open>str(rc)\<close>: the decimal digits, after a minus sign for a negative number.\<close>

fun digits :: "nat \<Rightarrow> string" where
  "digits n = (if n < 10 then [''0123456789'' ! n]
               else digits (n div 10) @ [''0123456789'' ! (n mod 10)])"

definition str_int :: "int \<Rightarrow> string" where
  "str_int i = (if i < 0 then CHR ''-'' # digits (nat (- i)) else digits (nat i))"

text \<open>
  The loop over the output of the process. It gives the progress events emitted and the
  way the loop is left: the stream has ended, \<open>readline\<close> has raised (the exception
  leaves the loop for the handler of \<open>run\<close>), or \<open>readline\<close> never returns. An empty
  string read while the process is alive emits nothing.
\<close>

datatype loop_exit = Loop_ends | Loop_raises string | Loop_blocks

fun read_loop :: "string outcome list \<Rightarrow> event list \<times> loop_exit" where
  "read_loop [] = ([], Loop_ends)"
| "read_loop (Returns line # rs) =
     (let (evs, x) = read_loop rs
      in ((if line \<noteq> [] then [Progress (strip line)] else []) @ evs, x))"
| "read_loop (Raises msg # rs) = ([], Loop_raises msg)"
| "read_loop (Blocks # rs) = ([], Loop_blocks)"

text \<open>
  What follows the loop, with the return code \<open>rc\<close>: the error stream is read, and the
  terminal event is emitted: success for the code 0, else a failure with the text of the
  error stream or, when that text is empty, with the return code. An exception of the
  read goes to the handler of \<open>run\<close>; a read that never returns emits nothing. The
  second component tells whether the thread gets to its end.
\<close>

definition after_loop :: "int \<Rightarrow> piece list outcome \<Rightarrow> event list \<times> bool" where
  "after_loop rc r =
     (case r of
        Blocks \<Rightarrow> ([], False)
      | Raises msg \<Rightarrow> ([Finished False (msg_error @ msg)], True)
      | Returns ps \<Rightarrow>
         (let stderr = decode_ignore ps
          in ([if rc = 0 then Finished True msg_done
               else Finished False (if stderr \<noteq> [] then stderr
                                    else msg_failed @ str_int rc)], True)))"

definition cmd :: "world \<Rightarrow> thread \<Rightarrow> string list" where
  "cmd w t = [executable w, script_path t, ''--config'', config_path t]"

text \<open>
  \<open>run\<close>: the events the thread emits, in order, and whether \<open>run\<close> returns. It does not
  return when a read never returns, or when the process never exits; the events are then
  those emitted up to the blocked read, or up to the last read listed, and whatever
  follows them in an endless loop is a progress event.
\<close>

definition run :: "world \<Rightarrow> thread \<Rightarrow> event list \<times> bool" where
  "run w t =
     (if \<not> path_exists w (script_path t)
      then ([Finished False (msg_not_found @ script_path t)], True)
      else
        (let started = Progress (msg_exec @ space_join (cmd w t))
         in case popen w (cmd w t) of
              Inl msg \<Rightarrow> ([started, Finished False (msg_error @ msg)], True)
            | Inr p \<Rightarrow>
               (case read_loop (stdout_readline p) of
                  (evs, Loop_raises msg) \<Rightarrow>
                    (started # evs @ [Finished False (msg_error @ msg)], True)
                | (evs, Loop_blocks) \<Rightarrow> (started # evs, False)
                | (evs, Loop_ends) \<Rightarrow>
                   (case returncode p of
                      None \<Rightarrow> (started # evs, False)
                    | Some rc \<Rightarrow>
                       (let (fin, returned) = after_loop rc (stderr_read p)
                        in (started # evs @ fin, returned))))))"

section \<open>The window\<close>








text \<open>The text before the file path in the log line of a loaded configuration ("configuration loaded: ").\<close>

definition msg_loaded :: string where
  "msg_loaded =
     [CHR 0xE9, CHR 0x85, CHR 0x8D, CHR 0xE7, CHR 0xBD, CHR 0xAE, CHR 0xE5, CHR 0xB7, CHR
      0xB2, CHR 0xE5, CHR 0x8A, CHR 0xA0, CHR 0xE8, CHR 0xBD, CHR 0xBD, CHR 0x3A, CHR 0x20]"


text \<open>
  The window: the form, the configuration files it has written, and the worker threads
  that were started and are not over, each with the events it has yet to deliver and
  whether it gets to its end.
\<close>

record app =
  form :: gui
  files :: "string \<rightharpoonup> config"
  running :: "(thread \<times> event list \<times> bool) list"

text \<open>What a failed load shows in its warning box: the exception, by its text or its class.\<close>

datatype failure = Raised string | Failed error

text \<open>
  \<open>load_config\<close>: nothing happens when the file dialog is cancelled. Otherwise the file
  is opened and read, \<open>json.load\<close> parses it and \<open>load_config_from_dict\<close> runs on the
  value. An exception of any of the three is caught and shown in a warning box; without
  one a line is added to the log.
\<close>

definition load_config :: "world \<Rightarrow> string option \<Rightarrow> gui \<Rightarrow> failure option \<times> gui" where
  "load_config w chosen f =
     (case chosen of
        None \<Rightarrow> (None, f)
      | Some file_path \<Rightarrow>
         (case read_file w file_path of
            Inl msg \<Rightarrow> (Some (Raised msg), f)
          | Inr bytes \<Rightarrow>
             (case json_load w bytes of
                Inl msg \<Rightarrow> (Some (Raised msg), f)
              | Inr config \<Rightarrow>
                 (case load_config_from_dict w f config of
                    (Some e, f') \<Rightarrow> (Some (Failed e), f')
                  | (None, f') \<Rightarrow>
                      (None, f'\<lparr>output_text := output_text f' @ [msg_loaded @ file_path]\<rparr>)))))"










section \<open>Notions used in the statements\<close>

text \<open>The value that \<open>get\<close> gives on a dictionary.\<close>

definition value_of :: "config \<Rightarrow> string \<Rightarrow> json \<Rightarrow> json" where
  "value_of c k d = (case c k of None \<Rightarrow> d | Some v \<Rightarrow> v)"

text \<open>
  An artifact is well typed when each key it has holds a value of the type that
  \<open>generate_config\<close> writes under it: a string, an integer that fits a C \<open>int\<close>, or a
  bool. Any key may be absent.
\<close>

definition is_text :: "json option \<Rightarrow> bool" where
  "is_text v = (case v of None \<Rightarrow> True | Some (JStr s) \<Rightarrow> True | _ \<Rightarrow> False)"

definition is_number :: "json option \<Rightarrow> bool" where
  "is_number v = (case v of None \<Rightarrow> True | Some (JInt n) \<Rightarrow> c_int n | _ \<Rightarrow> False)"

definition is_flag :: "json option \<Rightarrow> bool" where
  "is_flag v = (case v of None \<Rightarrow> True | Some (JBool b) \<Rightarrow> True | _ \<Rightarrow> False)"

definition text_keys :: "string list" where
  "text_keys = [''assets_path'', ''image_file'', ''main_path'', ''assets_size'',
                ''support_format'', ''lvgl_ver'', ''support_raw_cf'', ''support_raw_ff'']"

definition number_keys :: "string list" where
  "number_keys = [''name_length'', ''split_height'']"

definition flag_keys :: "string list" where
  "flag_keys = [''support_spng'', ''support_sjpg'', ''support_qoi'', ''support_sqoi'',
                ''support_raw'', ''support_raw_dither'', ''support_raw_bgr'']"

definition well_typed :: "config \<Rightarrow> bool" where
  "well_typed config \<longleftrightarrow>
     list_all (\<lambda>k. is_text (config k)) text_keys \<and>
     list_all (\<lambda>k. is_number (config k)) number_keys \<and>
     list_all (\<lambda>k. is_flag (config k)) flag_keys"

text \<open>The content of a value of the expected type.\<close>

definition str_of :: "json \<Rightarrow> string" where
  "str_of v = (case v of JStr s \<Rightarrow> s | _ \<Rightarrow> [])"

definition int_of :: "json \<Rightarrow> int" where
  "int_of v = (case v of JInt n \<Rightarrow> n | _ \<Rightarrow> 0)"

definition bool_of :: "json \<Rightarrow> bool" where
  "bool_of v = (case v of JBool b \<Rightarrow> b | _ \<Rightarrow> False)"


text \<open>
  Build, save, load into a form \<open>g\<close>, build again: the configuration that comes back
  from the artifact written for the form \<open>f\<close>. \<open>json.dump\<close> writes a dictionary of
  strings, integers and bools and \<open>json.load\<close> reads the same dictionary back.
\<close>

definition round_trip :: "world \<Rightarrow> gui \<Rightarrow> gui \<Rightarrow> error + config" where
  "round_trip w g f =
     (case generate_config w f of
        Inl e \<Rightarrow> Inl e
      | Inr config \<Rightarrow>
         (case load_config_from_dict w g (Object config) of
            (Some e, f') \<Rightarrow> Inl e
          | (None, f') \<Rightarrow> generate_config w f'))"

text \<open>The path of the image file written for a form.\<close>

definition image_file_of :: "world \<Rightarrow> gui \<Rightarrow> string" where
  "image_file_of w f = path_join w (output_path_edit f) ''assets.bin''"

text \<open>The lines among the outcomes of \<open>readline\<close>: the strings returned that are not empty.\<close>

fun lines_of :: "string outcome list \<Rightarrow> string list" where
  "lines_of [] = []"
| "lines_of (Returns s # rs) = (if s \<noteq> [] then s # lines_of rs else lines_of rs)"
| "lines_of (r # rs) = lines_of rs"

fun returns :: "'a outcome \<Rightarrow> bool" where
  "returns (Returns x) = True"
| "returns r = False"






text \<open>
  A system with the path functions of POSIX in which everything is there and the tool is
  the process \<open>p\<close>. Its disk holds three files: a JSON array, a text that is no JSON, and
  an object with a string under \<open>name_length\<close>; \<open>json_load\<close> is given on the texts of
  these files.
\<close>

definition bad_types :: config where
  "bad_types = map_of [(''assets_path'', JStr ''x''), (''name_length'', JStr ''abc'')]"

definition bad_types_text :: string where
  "bad_types_text = ''{'' @ [CHR 0x22] @ ''assets_path'' @ [CHR 0x22] @ '': '' @ [CHR 0x22]
     @ ''x'' @ [CHR 0x22] @ '', '' @ [CHR 0x22] @ ''name_length'' @ [CHR 0x22] @ '': ''
     @ [CHR 0x22] @ ''abc'' @ [CHR 0x22] @ ''}''"

definition disk :: "(string \<times> string) list" where
  "disk = [(''list.json'', ''[1, 2]''), (''broken.json'', ''{''), (''bad.json'', bad_types_text)]"

definition world_of :: "process \<Rightarrow> world" where
  "world_of p = \<lparr>path_join = posix_join, path_dirname = posix_dirname,
                 path_exists = (\<lambda>path. True), executable = ''python'',
                 popen = (\<lambda>c. Inr p), script_dir = ''/app'',
                 makedirs = (\<lambda>path. None), write_json = (\<lambda>path. None),
                 read_file = (\<lambda>path. case map_of disk path of
                                        None \<Rightarrow> Inl ''No such file or directory''
                                      | Some bytes \<Rightarrow> Inr bytes),
                 json_load = (\<lambda>bytes. if bytes = ''[1, 2]'' then Inr Not_object
                                       else if bytes = bad_types_text then Inr (Object bad_types)
                                       else Inl ''Expecting property name'')\<rparr>"

text \<open>A tool that prints nothing and exits with 0.\<close>

definition quiet_tool :: process where
  "quiet_tool = \<lparr>stdout_readline = [], returncode = Some 0, stderr_read = Returns []\<rparr>"

definition worker :: thread where
  "worker = \<lparr>config_path = ''/app/temp_config.json'', script_path = ''./spiffs_assets_gen.py''\<rparr>"


text \<open>
  Forms used as examples: the form as it opens with an output directory typed in, and a
  form with values that no spin box or combo box of the window would hold.
\<close>

definition typed_out :: "string \<Rightarrow> gui" where
  "typed_out p = init_ui\<lparr>output_path_edit := p\<rparr>"


text \<open>
  Artifacts used as examples: one with the two paths only, one with \<open>name_length\<close> above
  its range and nothing else, one with \<open>split_height\<close> below its range and nothing else,
  and two with a number that does not fit a C \<open>int\<close>.
\<close>

definition paths_only :: config where
  "paths_only = map_of [(''assets_path'', JStr ''img''), (''image_file'', JStr ''out/assets.bin'')]"

definition long_name :: config where
  "long_name = map_of [(''name_length'', JInt 500)]"

definition flat_split :: config where
  "flat_split = map_of [(''split_height'', JInt 0)]"

definition too_large :: config where
  "too_large = default_config(''name_length'' \<mapsto> JInt 2147483648)"

definition too_small :: config where
  "too_small = default_config(''split_height'' \<mapsto> JInt (- 2147483649))"

text \<open>
  Tools used as examples: one that prints three lines, the last after an ideographic
  space (U+3000), and exits with 0; one that exits with 2 after writing to its error
  stream; one that exits with 1 after writing bytes that are no UTF-8 to its error
  stream; one that prints a line and then neither writes nor exits.
\<close>

definition three_lines :: process where
  "three_lines = \<lparr>stdout_readline = [Returns ''pack a.png\<newline>'', Returns ''  done \<newline>'',
                     Returns [CHR 0xE3, CHR 0x80, CHR 0x80, CHR ''o'', CHR ''k'', CHR ''\<newline>'']],
                   returncode = Some 0, stderr_read = Returns []\<rparr>"








section \<open>The form stays within what its widgets allow\<close>

lemma form_ok_init_ui: "form_ok init_ui"
  by (simp add: form_ok_def init_ui_def lvgl_ver_items_def raw_cf_items_def raw_ff_items_def)

section \<open>Loading a well-typed artifact\<close>

lemma get_Object: "get (Object c) k d = Inr (value_of c k d)"
  by (simp add: get_def value_of_def)

lemma get_Not_object: "get Not_object k d = Inl AttributeError"
  by (simp add: get_def)

lemma setText_text:
  "is_text (c k) \<Longrightarrow>
   call (get (Object c) k (JStr d)) setText = Inr (str_of (value_of c k (JStr d)))"
  by (auto simp: is_text_def setText_def get_def call_def value_of_def str_of_def
           split: option.splits json.splits)

lemma setValue_number:
  "is_number (c k) \<Longrightarrow> c_int d \<Longrightarrow>
   call (get (Object c) k (JInt d)) (setValue lo hi)
     = Inr (bound lo hi (int_of (value_of c k (JInt d))))"
  by (auto simp: is_number_def setValue_def get_def call_def value_of_def int_of_def
           split: option.splits json.splits)

lemma setChecked_flag:
  "is_flag (c k) \<Longrightarrow>
   call (get (Object c) k (JBool d)) setChecked = Inr (bool_of (value_of c k (JBool d)))"
  by (auto simp: is_flag_def setChecked_def get_def call_def value_of_def bool_of_def
           split: option.splits json.splits)

lemma setCurrentText_text:
  "is_text (c k) \<Longrightarrow>
   call (get (Object c) k (JStr d)) (setCurrentText items cur) =
     Inr (if str_of (value_of c k (JStr d)) \<in> set items
          then str_of (value_of c k (JStr d)) else cur)"
  by (auto simp: is_text_def setCurrentText_def get_def call_def value_of_def str_of_def
           split: option.splits json.splits)

lemma load_image_file_text:
  "is_text (c ''image_file'') \<Longrightarrow>
   load_image_file w (Object c) f =
     Inr (if str_of (value_of c ''image_file'' (JStr [])) \<noteq> []
          then f\<lparr>output_path_edit := path_dirname w (str_of (value_of c ''image_file'' (JStr [])))\<rparr>
          else f)"
  by (auto simp: is_text_def load_image_file_def get_def value_of_def str_of_def
           split: option.splits json.splits)

lemma load_support_format_text:
  "is_text (c ''support_format'') \<Longrightarrow>
   load_support_format (Object c) f =
     Inr (f\<lparr>support_jpg_cb :=
              ''.jpg'' \<in> set (split_comma (str_of (value_of c ''support_format'' (JStr [])))),
            support_png_cb :=
              ''.png'' \<in> set (split_comma (str_of (value_of c ''support_format'' (JStr []))))\<rparr>)"
  by (auto simp: is_text_def load_support_format_def get_def value_of_def str_of_def
           split: option.splits json.splits)

lemma well_typed_iff:
  "well_typed c \<longleftrightarrow>
     is_text (c ''assets_path'') \<and> is_text (c ''image_file'') \<and> is_text (c ''main_path'') \<and>
     is_text (c ''assets_size'') \<and> is_text (c ''support_format'') \<and> is_text (c ''lvgl_ver'') \<and>
     is_text (c ''support_raw_cf'') \<and> is_text (c ''support_raw_ff'') \<and>
     is_number (c ''name_length'') \<and> is_number (c ''split_height'') \<and>
     is_flag (c ''support_spng'') \<and> is_flag (c ''support_sjpg'') \<and> is_flag (c ''support_qoi'') \<and>
     is_flag (c ''support_sqoi'') \<and> is_flag (c ''support_raw'') \<and>
     is_flag (c ''support_raw_dither'') \<and> is_flag (c ''support_raw_bgr'')"
  by (simp add: well_typed_def text_keys_def number_keys_def flag_keys_def)

lemmas load_defs = load_assets_path_def load_main_path_def load_name_length_def
  load_split_height_def load_assets_size_def load_support_spng_def load_support_sjpg_def
  load_support_qoi_def load_support_sqoi_def load_support_raw_def load_lvgl_ver_def
  load_support_raw_cf_def load_support_raw_ff_def load_support_raw_dither_def
  load_support_raw_bgr_def

lemma load_well_typed:
  assumes "well_typed c"
  shows "load_config_from_dict w f (Object c) =
    (None,
     f\<lparr>assets_path_edit := str_of (value_of c ''assets_path'' (JStr [])),
       output_path_edit := (if str_of (value_of c ''image_file'' (JStr [])) \<noteq> []
                            then path_dirname w (str_of (value_of c ''image_file'' (JStr [])))
                            else output_path_edit f),
       main_path_edit := str_of (value_of c ''main_path'' (JStr [])),
       name_length_spin := bound 8 128 (int_of (value_of c ''name_length'' (JInt 32))),
       split_height_spin := bound 1 1024 (int_of (value_of c ''split_height'' (JInt 16))),
       assets_size_edit := str_of (value_of c ''assets_size'' (JStr ''0x100000'')),
       support_jpg_cb :=
         ''.jpg'' \<in> set (split_comma (str_of (value_of c ''support_format'' (JStr [])))),
       support_png_cb :=
         ''.png'' \<in> set (split_comma (str_of (value_of c ''support_format'' (JStr [])))),
       support_spng_cb := bool_of (value_of c ''support_spng'' (JBool False)),
       support_sjpg_cb := bool_of (value_of c ''support_sjpg'' (JBool False)),
       support_qoi_cb := bool_of (value_of c ''support_qoi'' (JBool False)),
       support_sqoi_cb := bool_of (value_of c ''support_sqoi'' (JBool False)),
       support_raw_cb := bool_of (value_of c ''support_raw'' (JBool False)),
       lvgl_ver_combo :=
         (if str_of (value_of c ''lvgl_ver'' (JStr ''9.0.0'')) \<in> set lvgl_ver_items
          then str_of (value_of c ''lvgl_ver'' (JStr ''9.0.0'')) else lvgl_ver_combo f),
       support_raw_cf_combo :=
         (if str_of (value_of c ''support_raw_cf'' (JStr ''TRUE_COLOR'')) \<in> set raw_cf_items
          then str_of (value_of c ''support_raw_cf'' (JStr ''TRUE_COLOR''))
          else support_raw_cf_combo f),
       support_raw_ff_combo :=
         (if str_of (value_of c ''support_raw_ff'' (JStr ''BIN'')) \<in> set raw_ff_items
          then str_of (value_of c ''support_raw_ff'' (JStr ''BIN''))
          else support_raw_ff_combo f),
       support_raw_dither_cb := bool_of (value_of c ''support_raw_dither'' (JBool False)),
       support_raw_bgr_cb := bool_of (value_of c ''support_raw_bgr'' (JBool False))\<rparr>)"
proof -
  have c32: "c_int 32" and c16: "c_int 16" by (simp_all add: c_int_def)
  from assms have wt:
    "is_text (c ''assets_path'')" "is_text (c ''image_file'')" "is_text (c ''main_path'')"
    "is_text (c ''assets_size'')" "is_text (c ''support_format'')" "is_text (c ''lvgl_ver'')"
    "is_text (c ''support_raw_cf'')" "is_text (c ''support_raw_ff'')"
    "is_number (c ''name_length'')" "is_number (c ''split_height'')"
    "is_flag (c ''support_spng'')" "is_flag (c ''support_sjpg'')" "is_flag (c ''support_qoi'')"
    "is_flag (c ''support_sqoi'')" "is_flag (c ''support_raw'')"
    "is_flag (c ''support_raw_dither'')" "is_flag (c ''support_raw_bgr'')"
    by (simp_all add: well_typed_iff)
  show ?thesis
    unfolding load_config_from_dict_def load_stmts_def
    by (simp add: load_defs assign_def wt c32 c16 setText_text setValue_number setChecked_flag
          setCurrentText_text load_image_file_text load_support_format_text)
qed

lemma run_stmts_preserves:
  assumes "\<And>s g g'. s \<in> set ss \<Longrightarrow> P g \<Longrightarrow> s g = Inr g' \<Longrightarrow> P g'" and "P f"
  shows "P (snd (run_stmts ss f))"
  using assms
proof (induction ss arbitrary: f)
  case Nil
  then show ?case by simp
next
  case (Cons s ss)
  show ?case
  proof (cases "s f")
    case (Inl e)
    with Cons.prems(2) show ?thesis by simp
  next
    case (Inr g)
    have "P g" using Cons.prems(1)[of s f g] Cons.prems(2) Inr by simp
    moreover have "P g'" if "t \<in> set ss" "P h" "t h = Inr g'" for t h g'
      using Cons.prems(1)[of t h g'] that by simp
    ultimately have "P (snd (run_stmts ss g))" by (intro Cons.IH)
    with Inr show ?thesis by simp
  qed
qed

text \<open>
  A sequence that has failed has run the statements before the failing one, which is the
  one that raised, and none after it.
\<close>

lemma run_stmts_fails:
  "fst (run_stmts ss f) = Some e \<Longrightarrow>
   \<exists>n<length ss. run_stmts (take n ss) f = (None, snd (run_stmts ss f)) \<and>
                 (ss ! n) (snd (run_stmts ss f)) = Inl e"
proof (induction ss arbitrary: f)
  case Nil
  then show ?case by simp
next
  case (Cons s ss)
  show ?case
  proof (cases "s f")
    case (Inl e')
    with Cons.prems have "e' = e" by simp
    with Inl have "run_stmts (take 0 (s # ss)) f = (None, snd (run_stmts (s # ss) f)) \<and>
                   ((s # ss) ! 0) (snd (run_stmts (s # ss) f)) = Inl e"
      by simp
    then show ?thesis by blast
  next
    case (Inr g)
    with Cons.prems have "fst (run_stmts ss g) = Some e" by simp
    from Cons.IH[OF this] obtain n where n: "n < length ss"
      "run_stmts (take n ss) g = (None, snd (run_stmts ss g))"
      "(ss ! n) (snd (run_stmts ss g)) = Inl e"
      by blast
    with Inr have "Suc n < length (s # ss) \<and>
        run_stmts (take (Suc n) (s # ss)) f = (None, snd (run_stmts (s # ss) f)) \<and>
        ((s # ss) ! Suc n) (snd (run_stmts (s # ss) f)) = Inl e"
      by simp
    then show ?thesis by blast
  qed
qed

text \<open>
  A statement that raises whatever the form makes the sequence fail, and what the
  statements before it do not touch is as it was.
\<close>

lemma run_stmts_fails_at:
  assumes "\<And>g. s g = Inl e"
    and "\<And>t g g'. t \<in> set pre \<Longrightarrow> t g = Inr g' \<Longrightarrow> Q g' = Q g"
  shows "fst (run_stmts (pre @ s # post) f) \<noteq> None \<and>
         Q (snd (run_stmts (pre @ s # post) f)) = Q f"
  using assms(2)
proof (induction pre arbitrary: f)
  case Nil
  show ?case by (simp add: assms(1))
next
  case (Cons t pre)
  show ?case
  proof (cases "t f")
    case (Inl e')
    then show ?thesis by simp
  next
    case (Inr g)
    have q: "Q g = Q f" using Cons.prems[of t f g] Inr by simp
    have "Q h' = Q h" if "u \<in> set pre" "u h = Inr h'" for u h h'
      using Cons.prems[of u h h'] that by simp
    then have "fst (run_stmts (pre @ s # post) g) \<noteq> None \<and>
               Q (snd (run_stmts (pre @ s # post) g)) = Q g"
      by (intro Cons.IH)
    with Inr q show ?thesis by simp
  qed
qed

lemma run_stmts_fails_with:
  assumes "\<And>g. s g = Inl e" and "\<And>t g. t \<in> set pre \<Longrightarrow> \<exists>g'. t g = Inr g'"
  shows "fst (run_stmts (pre @ s # post) f) = Some e"
  using assms(2)
proof (induction pre arbitrary: f)
  case Nil
  show ?case by (simp add: assms(1))
next
  case (Cons t pre)
  from Cons.prems[of t f] obtain g where g: "t f = Inr g" by auto
  have "\<exists>h'. u h = Inr h'" if "u \<in> set pre" for u h
    using Cons.prems[of u h] that by simp
  then have "fst (run_stmts (pre @ s # post) g) = Some e"
    by (intro Cons.IH)
  with g show ?case by simp
qed

lemma bound_range: "lo \<le> hi \<Longrightarrow> lo \<le> bound lo hi n \<and> bound lo hi n \<le> hi"
  by (simp add: bound_def)

lemma load_stmt_form_ok:
  assumes "s \<in> set (load_stmts w c)" "form_ok g" "s g = Inr g'"
  shows "form_ok g'"
  using assms
  unfolding load_stmts_def
  by (auto simp: load_defs load_image_file_def load_support_format_def assign_def call_def
        get_def form_ok_def setText_def setValue_def setChecked_def setCurrentText_def
        bound_def
        split: json.splits if_splits document.splits option.splits)

lemma load_config_from_dict_form_ok:
  "form_ok f \<Longrightarrow> form_ok (snd (load_config_from_dict w f c))"
  unfolding load_config_from_dict_def
  by (rule run_stmts_preserves[where P = form_ok]) (auto intro: load_stmt_form_ok)

lemma split_formats:
  "(''.jpg'' \<in> set (split_comma (get_support_formats f)) \<longleftrightarrow> support_jpg_cb f) \<and>
   (''.png'' \<in> set (split_comma (get_support_formats f)) \<longleftrightarrow> support_png_cb f)"
  by (cases "support_jpg_cb f"; cases "support_png_cb f")
     (simp_all add: get_support_formats_def formats_def)

section \<open>Building fails on an empty output directory only\<close>




section \<open>Saving and loading a configuration\<close>

lemma generate_config_well_typed:
  assumes "form_ok f"
  shows "well_typed (map_of
        [(''assets_path'', JStr (assets_path_edit f)),
         (''image_file'', JStr (path_join w (output_path_edit f) ''assets.bin'')),
         (''main_path'', JStr (main_path_edit f)),
         (''name_length'', JInt (name_length_spin f)),
         (''split_height'', JInt (split_height_spin f)),
         (''support_format'', JStr (get_support_formats f)),
         (''support_spng'', JBool (support_spng_cb f)),
         (''support_sjpg'', JBool (support_sjpg_cb f)),
         (''support_qoi'', JBool (support_qoi_cb f)),
         (''support_sqoi'', JBool (support_sqoi_cb f)),
         (''support_raw'', JBool (support_raw_cb f)),
         (''assets_size'', JStr (assets_size_edit f)),
         (''lvgl_ver'', JStr (lvgl_ver_combo f)),
         (''support_raw_cf'', JStr (support_raw_cf_combo f)),
         (''support_raw_ff'', JStr (support_raw_ff_combo f)),
         (''support_raw_dither'', JBool (support_raw_dither_cb f)),
         (''support_raw_bgr'', JBool (support_raw_bgr_cb f))])"
  using assms
  by (simp add: well_typed_iff is_text_def is_number_def is_flag_def c_int_def form_ok_def)

text \<open>
  C1. Round trip. For a form the widgets can hold, with an output directory that is not
  empty, building the configuration, loading it into any form and building again gives
  the same configuration in every field but the path of the image file. That path comes
  back as \<open>os.path.join(os.path.dirname(image_file), "assets.bin")\<close> (and the second
  build raises ValueError if \<open>os.path.dirname\<close> gives the empty string), so the
  configuration that comes back is the original exactly when the path functions of the
  platform give the path of the image file back. (\<open>os.path.join\<close> with \<open>assets.bin\<close> as
  its second argument gives a text that is not empty on every platform.)
\<close>

theorem round_trip_image_file:
  assumes ok: "form_ok f" and out: "output_path_edit f \<noteq> []" and img: "image_file_of w f \<noteq> []"
  shows "\<exists>c. generate_config w f = Inr c \<and>
     c ''image_file'' = Some (JStr (image_file_of w f)) \<and>
     round_trip w g f =
       (if path_dirname w (image_file_of w f) = [] then Inl ValueError
        else Inr (c(''image_file'' \<mapsto>
                     JStr (path_join w (path_dirname w (image_file_of w f)) ''assets.bin'')))) \<and>
     (round_trip w g f = generate_config w f \<longleftrightarrow>
        path_dirname w (image_file_of w f) \<noteq> [] \<and>
        path_join w (path_dirname w (image_file_of w f)) ''assets.bin'' = image_file_of w f)"
proof -
  let ?img = "image_file_of w f"
  define c where "c = map_of
        [(''assets_path'', JStr (assets_path_edit f)),
         (''image_file'', JStr (path_join w (output_path_edit f) ''assets.bin'')),
         (''main_path'', JStr (main_path_edit f)),
         (''name_length'', JInt (name_length_spin f)),
         (''split_height'', JInt (split_height_spin f)),
         (''support_format'', JStr (get_support_formats f)),
         (''support_spng'', JBool (support_spng_cb f)),
         (''support_sjpg'', JBool (support_sjpg_cb f)),
         (''support_qoi'', JBool (support_qoi_cb f)),
         (''support_sqoi'', JBool (support_sqoi_cb f)),
         (''support_raw'', JBool (support_raw_cb f)),
         (''assets_size'', JStr (assets_size_edit f)),
         (''lvgl_ver'', JStr (lvgl_ver_combo f)),
         (''support_raw_cf'', JStr (support_raw_cf_combo f)),
         (''support_raw_ff'', JStr (support_raw_ff_combo f)),
         (''support_raw_dither'', JBool (support_raw_dither_cb f)),
         (''support_raw_bgr'', JBool (support_raw_bgr_cb f))]"
  have gen: "generate_config w f = Inr c"
    using out by (simp add: generate_config_def c_def)
  have cimg: "c ''image_file'' = Some (JStr ?img)"
    by (simp add: c_def image_file_of_def)
  have wt: "well_typed c"
    unfolding c_def by (rule generate_config_well_typed[OF ok])
  have gets:
    "str_of (value_of c ''assets_path'' d) = assets_path_edit f"
    "str_of (value_of c ''image_file'' d) = ?img"
    "str_of (value_of c ''main_path'' d) = main_path_edit f"
    "int_of (value_of c ''name_length'' d) = name_length_spin f"
    "int_of (value_of c ''split_height'' d) = split_height_spin f"
    "str_of (value_of c ''support_format'' d) = get_support_formats f"
    "bool_of (value_of c ''support_spng'' d) = support_spng_cb f"
    "bool_of (value_of c ''support_sjpg'' d) = support_sjpg_cb f"
    "bool_of (value_of c ''support_qoi'' d) = support_qoi_cb f"
    "bool_of (value_of c ''support_sqoi'' d) = support_sqoi_cb f"
    "bool_of (value_of c ''support_raw'' d) = support_raw_cb f"
    "str_of (value_of c ''assets_size'' d) = assets_size_edit f"
    "str_of (value_of c ''lvgl_ver'' d) = lvgl_ver_combo f"
    "str_of (value_of c ''support_raw_cf'' d) = support_raw_cf_combo f"
    "str_of (value_of c ''support_raw_ff'' d) = support_raw_ff_combo f"
    "bool_of (value_of c ''support_raw_dither'' d) = support_raw_dither_cb f"
    "bool_of (value_of c ''support_raw_bgr'' d) = support_raw_bgr_cb f" for d
    by (simp_all add: c_def value_of_def str_of_def int_of_def bool_of_def image_file_of_def)
  have b1: "bound 8 128 (name_length_spin f) = name_length_spin f"
    and b2: "bound 1 1024 (split_height_spin f) = split_height_spin f"
    using ok by (simp_all add: form_ok_def bound_def)
  have items: "lvgl_ver_combo f \<in> set lvgl_ver_items"
    "support_raw_cf_combo f \<in> set raw_cf_items" "support_raw_ff_combo f \<in> set raw_ff_items"
    using ok by (simp_all add: form_ok_def)
  define f' where "f' = snd (load_config_from_dict w g (Object c))"
  have loaded: "load_config_from_dict w g (Object c) = (None, f')"
    unfolding f'_def by (simp add: load_well_typed[OF wt])
  have fields:
    "assets_path_edit f' = assets_path_edit f"
    "output_path_edit f' = path_dirname w ?img"
    "main_path_edit f' = main_path_edit f"
    "name_length_spin f' = name_length_spin f"
    "split_height_spin f' = split_height_spin f"
    "assets_size_edit f' = assets_size_edit f"
    "support_jpg_cb f' = support_jpg_cb f"
    "support_png_cb f' = support_png_cb f"
    "support_spng_cb f' = support_spng_cb f"
    "support_sjpg_cb f' = support_sjpg_cb f"
    "support_qoi_cb f' = support_qoi_cb f"
    "support_sqoi_cb f' = support_sqoi_cb f"
    "support_raw_cb f' = support_raw_cb f"
    "lvgl_ver_combo f' = lvgl_ver_combo f"
    "support_raw_cf_combo f' = support_raw_cf_combo f"
    "support_raw_ff_combo f' = support_raw_ff_combo f"
    "support_raw_dither_cb f' = support_raw_dither_cb f"
    "support_raw_bgr_cb f' = support_raw_bgr_cb f"
    unfolding f'_def
    by (simp_all add: load_well_typed[OF wt] gets img b1 b2 items split_formats)
  have sf: "get_support_formats f' = get_support_formats f"
    by (simp add: get_support_formats_def formats_def fields)
  have rt: "round_trip w g f = generate_config w f'"
    by (simp add: round_trip_def gen loaded)
  have again: "generate_config w f' =
       (if path_dirname w ?img = [] then Inl ValueError
        else Inr (c(''image_file'' \<mapsto> JStr (path_join w (path_dirname w ?img) ''assets.bin''))))"
  proof (cases "path_dirname w ?img = []")
    case True
    then show ?thesis by (simp add: generate_config_def fields)
  next
    case False
    have "map_of
        [(''assets_path'', JStr (assets_path_edit f)),
         (''image_file'', JStr (path_join w (path_dirname w ?img) ''assets.bin'')),
         (''main_path'', JStr (main_path_edit f)),
         (''name_length'', JInt (name_length_spin f)),
         (''split_height'', JInt (split_height_spin f)),
         (''support_format'', JStr (get_support_formats f)),
         (''support_spng'', JBool (support_spng_cb f)),
         (''support_sjpg'', JBool (support_sjpg_cb f)),
         (''support_qoi'', JBool (support_qoi_cb f)),
         (''support_sqoi'', JBool (support_sqoi_cb f)),
         (''support_raw'', JBool (support_raw_cb f)),
         (''assets_size'', JStr (assets_size_edit f)),
         (''lvgl_ver'', JStr (lvgl_ver_combo f)),
         (''support_raw_cf'', JStr (support_raw_cf_combo f)),
         (''support_raw_ff'', JStr (support_raw_ff_combo f)),
         (''support_raw_dither'', JBool (support_raw_dither_cb f)),
         (''support_raw_bgr'', JBool (support_raw_bgr_cb f))]
       = c(''image_file'' \<mapsto> JStr (path_join w (path_dirname w ?img) ''assets.bin''))"
      unfolding c_def by (rule ext) simp
    with False show ?thesis by (simp add: generate_config_def fields sf)
  qed
  have same: "round_trip w g f = generate_config w f \<longleftrightarrow>
        path_dirname w ?img \<noteq> [] \<and> path_join w (path_dirname w ?img) ''assets.bin'' = ?img"
  proof (cases "path_dirname w ?img = []")
    case True
    then show ?thesis by (simp add: rt again gen)
  next
    case False
    have "c(''image_file'' \<mapsto> JStr x) = c \<longleftrightarrow> x = ?img" for x
    proof
      assume "c(''image_file'' \<mapsto> JStr x) = c"
      then have "(c(''image_file'' \<mapsto> JStr x)) ''image_file'' = c ''image_file''" by simp
      with cimg show "x = ?img" by simp
    next
      assume "x = ?img"
      with cimg show "c(''image_file'' \<mapsto> JStr x) = c" by (simp add: map_upd_triv)
    qed
    with False show ?thesis by (simp add: rt again gen)
  qed
  from gen cimg rt again same show ?thesis by simp
qed

lemma form_ok_typed_out: "form_ok (typed_out p)"
  using form_ok_init_ui by (simp add: form_ok_def typed_out_def)

theorem round_trip_image_file_witness:
  "form_ok (typed_out ''out'') \<and> output_path_edit (typed_out ''out'') \<noteq> [] \<and>
   image_file_of (world_of quiet_tool) (typed_out ''out'') = ''out/assets.bin'' \<and>
   round_trip (world_of quiet_tool) init_ui (typed_out ''out'')
     = generate_config (world_of quiet_tool) (typed_out ''out'')"
proof -
  have out: "output_path_edit (typed_out ''out'') \<noteq> []"
    by (simp add: typed_out_def)
  have img: "image_file_of (world_of quiet_tool) (typed_out ''out'') = ''out/assets.bin''"
    by (simp add: image_file_of_def typed_out_def world_of_def posix_join_def sep_def)
  then have ne: "image_file_of (world_of quiet_tool) (typed_out ''out'') \<noteq> []" by simp
  have again: "path_dirname (world_of quiet_tool) ''out/assets.bin'' = ''out''"
    "path_join (world_of quiet_tool) ''out'' ''assets.bin'' = ''out/assets.bin''"
    by (simp_all add: world_of_def posix_dirname_def posix_join_def rstrip_sep_def sep_def)
  from round_trip_image_file[OF form_ok_typed_out out ne, of init_ui]
  have "round_trip (world_of quiet_tool) init_ui (typed_out ''out'')
          = generate_config (world_of quiet_tool) (typed_out ''out'')"
    by (auto simp: img again)
  with form_ok_typed_out out img show ?thesis by simp
qed

text \<open>
  With the output directory \<open>a//\<close> the image file \<open>a//assets.bin\<close> comes back as
  \<open>a/assets.bin\<close>: \<open>os.path.dirname\<close> strips both separators and \<open>os.path.join\<close>
  puts one back.
\<close>

theorem round_trip_counterexample:
  "projr (generate_config (world_of quiet_tool) (typed_out ''a//'')) ''image_file''
     = Some (JStr ''a//assets.bin'') \<and>
   projr (round_trip (world_of quiet_tool) init_ui (typed_out ''a//'')) ''image_file''
     = Some (JStr ''a/assets.bin'')"
  by (simp add: round_trip_def generate_config_def load_config_from_dict_def load_stmts_def
        load_defs load_image_file_def load_support_format_def assign_def call_def setText_def
        setValue_def setChecked_def setCurrentText_def get_def init_ui_def typed_out_def
        world_of_def posix_join_def posix_dirname_def rstrip_sep_def sep_def c_int_def
        bound_def lvgl_ver_items_def raw_cf_items_def raw_ff_items_def get_support_formats_def
        formats_def)

lemma value_of_None: "c k = None \<Longrightarrow> value_of c k d = d"
  by (simp add: value_of_def)

text \<open>
  C2. Missing keys. Loading a well-typed artifact never fails, and every field whose key is
  absent takes the fallback written in \<open>load_config_from_dict\<close>: empty texts for the two
  directories, 32 and 16 for the numbers, \<open>0x100000\<close> for the partition size, no input
  format selected, every output format and both flags disabled, and \<open>9.0.0\<close>,
  \<open>TRUE_COLOR\<close> and \<open>BIN\<close> in the combo boxes. Without \<open>image_file\<close> the output
  directory is left as it was.
\<close>

theorem missing_keys_fallbacks:
  assumes "well_typed c"
  shows "fst (load_config_from_dict w f (Object c)) = None \<and>
    (c ''assets_path'' = None \<longrightarrow>
       assets_path_edit (snd (load_config_from_dict w f (Object c))) = []) \<and>
    (c ''image_file'' = None \<longrightarrow>
       output_path_edit (snd (load_config_from_dict w f (Object c))) = output_path_edit f) \<and>
    (c ''main_path'' = None \<longrightarrow>
       main_path_edit (snd (load_config_from_dict w f (Object c))) = []) \<and>
    (c ''name_length'' = None \<longrightarrow>
       name_length_spin (snd (load_config_from_dict w f (Object c))) = 32) \<and>
    (c ''split_height'' = None \<longrightarrow>
       split_height_spin (snd (load_config_from_dict w f (Object c))) = 16) \<and>
    (c ''assets_size'' = None \<longrightarrow>
       assets_size_edit (snd (load_config_from_dict w f (Object c))) = ''0x100000'') \<and>
    (c ''support_format'' = None \<longrightarrow>
       \<not> support_jpg_cb (snd (load_config_from_dict w f (Object c))) \<and>
       \<not> support_png_cb (snd (load_config_from_dict w f (Object c)))) \<and>
    (c ''support_spng'' = None \<longrightarrow>
       \<not> support_spng_cb (snd (load_config_from_dict w f (Object c)))) \<and>
    (c ''support_sjpg'' = None \<longrightarrow>
       \<not> support_sjpg_cb (snd (load_config_from_dict w f (Object c)))) \<and>
    (c ''support_qoi'' = None \<longrightarrow>
       \<not> support_qoi_cb (snd (load_config_from_dict w f (Object c)))) \<and>
    (c ''support_sqoi'' = None \<longrightarrow>
       \<not> support_sqoi_cb (snd (load_config_from_dict w f (Object c)))) \<and>
    (c ''support_raw'' = None \<longrightarrow>
       \<not> support_raw_cb (snd (load_config_from_dict w f (Object c)))) \<and>
    (c ''lvgl_ver'' = None \<longrightarrow>
       lvgl_ver_combo (snd (load_config_from_dict w f (Object c))) = ''9.0.0'') \<and>
    (c ''support_raw_cf'' = None \<longrightarrow>
       support_raw_cf_combo (snd (load_config_from_dict w f (Object c))) = ''TRUE_COLOR'') \<and>
    (c ''support_raw_ff'' = None \<longrightarrow>
       support_raw_ff_combo (snd (load_config_from_dict w f (Object c))) = ''BIN'') \<and>
    (c ''support_raw_dither'' = None \<longrightarrow>
       \<not> support_raw_dither_cb (snd (load_config_from_dict w f (Object c)))) \<and>
    (c ''support_raw_bgr'' = None \<longrightarrow>
       \<not> support_raw_bgr_cb (snd (load_config_from_dict w f (Object c))))"
  by (simp add: load_well_typed[OF assms] value_of_None str_of_def int_of_def bool_of_def
        bound_def lvgl_ver_items_def raw_cf_items_def raw_ff_items_def)

lemma well_typed_paths_only: "well_typed paths_only"
  by (simp add: well_typed_iff paths_only_def is_text_def is_number_def is_flag_def)

theorem missing_keys_fallbacks_witness:
  "well_typed paths_only \<and> paths_only ''name_length'' = None \<and>
   paths_only ''support_format'' = None \<and> paths_only ''lvgl_ver'' = None \<and>
   fst (load_config_from_dict (world_of quiet_tool) init_ui (Object paths_only)) = None \<and>
   name_length_spin (snd (load_config_from_dict (world_of quiet_tool) init_ui (Object paths_only)))
     = 32 \<and>
   \<not> support_jpg_cb (snd (load_config_from_dict (world_of quiet_tool) init_ui (Object paths_only))) \<and>
   lvgl_ver_combo (snd (load_config_from_dict (world_of quiet_tool) init_ui (Object paths_only)))
     = ''9.0.0''"
  using missing_keys_fallbacks[OF well_typed_paths_only, of "world_of quiet_tool" init_ui]
    well_typed_paths_only
  by (simp add: paths_only_def)

text \<open>
  An artifact with the two paths only, loaded into the form as it opens: both input
  formats, checked before, are unchecked afterwards, and so are SJPG and SPNG. These
  fallbacks are not the values of \<open>load_default_config\<close>.
\<close>

theorem missing_keys_counterexample:
  "fst (load_config_from_dict (world_of quiet_tool) init_ui (Object paths_only)) = None \<and>
   support_jpg_cb init_ui \<and> support_png_cb init_ui \<and>
   formats (snd (load_config_from_dict (world_of quiet_tool) init_ui (Object paths_only))) = [] \<and>
   \<not> support_sjpg_cb (snd (load_config_from_dict (world_of quiet_tool) init_ui (Object paths_only))) \<and>
   \<not> support_spng_cb (snd (load_config_from_dict (world_of quiet_tool) init_ui (Object paths_only)))"
proof -
  have gets: "value_of paths_only ''support_format'' d = d"
    "value_of paths_only ''support_sjpg'' d = d"
    "value_of paths_only ''support_spng'' d = d" for d
    by (simp_all add: value_of_def paths_only_def)
  show ?thesis
    by (simp add: load_well_typed[OF well_typed_paths_only] gets str_of_def bool_of_def
          formats_def init_ui_def)
qed

section \<open>Numbers out of range\<close>

lemma load_stmts_name_length:
  "\<exists>post. load_stmts w c =
     [load_assets_path c, load_image_file w c, load_main_path c] @ load_name_length c # post"
  by (simp add: load_stmts_def)

lemma load_stmts_split_height:
  "\<exists>post. load_stmts w c =
     [load_assets_path c, load_image_file w c, load_main_path c, load_name_length c]
       @ load_split_height c # post"
  by (simp add: load_stmts_def)

lemma load_name_length_overflow:
  "c ''name_length'' = Some (JInt n) \<Longrightarrow> \<not> c_int n \<Longrightarrow>
   load_name_length (Object c) g = Inl OverflowError"
  by (simp add: load_name_length_def assign_def call_def get_def setValue_def)

lemma load_split_height_overflow:
  "c ''split_height'' = Some (JInt m) \<Longrightarrow> \<not> c_int m \<Longrightarrow>
   load_split_height (Object c) g = Inl OverflowError"
  by (simp add: load_split_height_def assign_def call_def get_def setValue_def)

lemma paths_keep_numbers:
  assumes "t \<in> set [load_assets_path c, load_image_file w c, load_main_path c]"
    and "t g = Inr g'"
  shows "name_length_spin g' = name_length_spin g \<and> split_height_spin g' = split_height_spin g"
  using assms
  by (auto simp: load_assets_path_def load_main_path_def load_image_file_def assign_def
        split: sum.splits json.splits if_splits)

lemma name_length_keeps_split_height:
  "load_name_length c g = Inr g' \<Longrightarrow> split_height_spin g' = split_height_spin g"
  by (auto simp: load_name_length_def assign_def split: sum.splits)

lemma paths_succeed:
  assumes "is_text (c ''assets_path'')" "is_text (c ''image_file'')" "is_text (c ''main_path'')"
    and "t \<in> set [load_assets_path (Object c), load_image_file w (Object c),
                   load_main_path (Object c)]"
  shows "\<exists>g'. t g = Inr g'"
  using assms
  by (auto simp: load_assets_path_def load_main_path_def assign_def setText_text
        load_image_file_text)

lemma name_length_succeeds:
  "is_number (c ''name_length'') \<Longrightarrow> \<exists>g'. load_name_length (Object c) g = Inr g'"
  using setValue_number[of c "''name_length''" 32 8 128]
  by (simp add: load_name_length_def assign_def c_int_def)

lemma name_length_overflow:
  assumes n: "c ''name_length'' = Some (JInt n)" and big: "\<not> c_int n"
  shows "fst (load_config_from_dict w f (Object c)) \<noteq> None \<and>
         name_length_spin (snd (load_config_from_dict w f (Object c))) = name_length_spin f \<and>
         (is_text (c ''assets_path'') \<and> is_text (c ''image_file'') \<and> is_text (c ''main_path'')
            \<longrightarrow> fst (load_config_from_dict w f (Object c)) = Some OverflowError)"
proof -
  let ?pre = "[load_assets_path (Object c), load_image_file w (Object c),
               load_main_path (Object c)]"
  obtain post where l: "load_stmts w (Object c) = ?pre @ load_name_length (Object c) # post"
    using load_stmts_name_length by blast
  have fails: "load_name_length (Object c) g = Inl OverflowError" for g
    using n big by (rule load_name_length_overflow)
  have keep: "name_length_spin g' = name_length_spin g" if "t \<in> set ?pre" "t g = Inr g'" for t g g'
    using paths_keep_numbers[OF that] by simp
  have a: "fst (run_stmts (?pre @ load_name_length (Object c) # post) f) \<noteq> None \<and>
           name_length_spin (snd (run_stmts (?pre @ load_name_length (Object c) # post) f))
             = name_length_spin f"
    using fails keep by (rule run_stmts_fails_at)
  have b: "fst (run_stmts (?pre @ load_name_length (Object c) # post) f) = Some OverflowError"
    if "is_text (c ''assets_path'')" "is_text (c ''image_file'')" "is_text (c ''main_path'')"
  proof (rule run_stmts_fails_with[OF fails])
    fix t g assume "t \<in> set ?pre"
    with that show "\<exists>g'. t g = Inr g'" by (rule paths_succeed)
  qed
  from a b show ?thesis by (simp add: load_config_from_dict_def l)
qed

lemma split_height_overflow:
  assumes m: "c ''split_height'' = Some (JInt m)" and big: "\<not> c_int m"
  shows "fst (load_config_from_dict w f (Object c)) \<noteq> None \<and>
         split_height_spin (snd (load_config_from_dict w f (Object c))) = split_height_spin f \<and>
         (is_text (c ''assets_path'') \<and> is_text (c ''image_file'') \<and> is_text (c ''main_path'')
            \<and> is_number (c ''name_length'')
            \<longrightarrow> fst (load_config_from_dict w f (Object c)) = Some OverflowError)"
proof -
  let ?pre = "[load_assets_path (Object c), load_image_file w (Object c),
               load_main_path (Object c), load_name_length (Object c)]"
  obtain post where l: "load_stmts w (Object c) = ?pre @ load_split_height (Object c) # post"
    using load_stmts_split_height by blast
  have fails: "load_split_height (Object c) g = Inl OverflowError" for g
    using m big by (rule load_split_height_overflow)
  have keep: "split_height_spin g' = split_height_spin g" if "t \<in> set ?pre" "t g = Inr g'" for t g g'
  proof (cases "t = load_name_length (Object c)")
    case True
    with that(2) show ?thesis by (simp add: name_length_keeps_split_height)
  next
    case False
    with that(1) have "t \<in> set [load_assets_path (Object c), load_image_file w (Object c),
                                  load_main_path (Object c)]"
      by auto
    from paths_keep_numbers[OF this that(2)] show ?thesis by simp
  qed
  have a: "fst (run_stmts (?pre @ load_split_height (Object c) # post) f) \<noteq> None \<and>
           split_height_spin (snd (run_stmts (?pre @ load_split_height (Object c) # post) f))
             = split_height_spin f"
    using fails keep by (rule run_stmts_fails_at)
  have b: "fst (run_stmts (?pre @ load_split_height (Object c) # post) f) = Some OverflowError"
    if t: "is_text (c ''assets_path'')" "is_text (c ''image_file'')" "is_text (c ''main_path'')"
      and nl: "is_number (c ''name_length'')"
  proof (rule run_stmts_fails_with[OF fails])
    fix t g assume in_pre: "t \<in> set ?pre"
    show "\<exists>g'. t g = Inr g'"
    proof (cases "t = load_name_length (Object c)")
      case True
      with nl show ?thesis by (simp add: name_length_succeeds)
    next
      case False
      with in_pre have "t \<in> set [load_assets_path (Object c), load_image_file w (Object c),
                                   load_main_path (Object c)]"
        by auto
      with t show ?thesis by (rule paths_succeed)
    qed
  qed
  from a b show ?thesis by (simp add: load_config_from_dict_def l)
qed

text \<open>
  C10. Numbers out of range. In a well-typed artifact (its numbers fit a C \<open>int\<close>) a
  \<open>name_length\<close> outside the range of its spin box does not make the load fail and is
  stored as the nearest bound of the range, and so for a \<open>split_height\<close>, each whatever
  the other keys hold. An integer under \<open>name_length\<close> or \<open>split_height\<close> that does not
  fit a C \<open>int\<close> makes the load fail and leaves the spin box as it was; the error is
  OverflowError when the statements before the spin box have values of their types.
  Whatever the artifact holds, and whether or not the load fails, the form stays within
  what its widgets allow.
\<close>

theorem numbers_clamped:
  "(well_typed c \<and> c ''name_length'' = Some (JInt n) \<longrightarrow>
      fst (load_config_from_dict w f (Object c)) = None \<and>
      name_length_spin (snd (load_config_from_dict w f (Object c)))
        = (if n < 8 then 8 else if 128 < n then 128 else n)) \<and>
   (well_typed c \<and> c ''split_height'' = Some (JInt m) \<longrightarrow>
      fst (load_config_from_dict w f (Object c)) = None \<and>
      split_height_spin (snd (load_config_from_dict w f (Object c)))
        = (if m < 1 then 1 else if 1024 < m then 1024 else m)) \<and>
   (c ''name_length'' = Some (JInt n) \<and> \<not> c_int n \<longrightarrow>
      fst (load_config_from_dict w f (Object c)) \<noteq> None \<and>
      name_length_spin (snd (load_config_from_dict w f (Object c))) = name_length_spin f \<and>
      (is_text (c ''assets_path'') \<and> is_text (c ''image_file'') \<and> is_text (c ''main_path'')
         \<longrightarrow> fst (load_config_from_dict w f (Object c)) = Some OverflowError)) \<and>
   (c ''split_height'' = Some (JInt m) \<and> \<not> c_int m \<longrightarrow>
      fst (load_config_from_dict w f (Object c)) \<noteq> None \<and>
      split_height_spin (snd (load_config_from_dict w f (Object c))) = split_height_spin f \<and>
      (is_text (c ''assets_path'') \<and> is_text (c ''image_file'') \<and> is_text (c ''main_path'')
         \<and> is_number (c ''name_length'')
         \<longrightarrow> fst (load_config_from_dict w f (Object c)) = Some OverflowError)) \<and>
   (form_ok f \<longrightarrow> form_ok (snd (load_config_from_dict w f (Object c))))"
proof -
  have "fst (load_config_from_dict w f (Object c)) = None \<and>
      name_length_spin (snd (load_config_from_dict w f (Object c)))
        = (if n < 8 then 8 else if 128 < n then 128 else n)"
    if wt: "well_typed c" and n: "c ''name_length'' = Some (JInt n)"
    using n by (simp add: load_well_typed[OF wt] value_of_def int_of_def bound_def)
  moreover have "fst (load_config_from_dict w f (Object c)) = None \<and>
      split_height_spin (snd (load_config_from_dict w f (Object c)))
        = (if m < 1 then 1 else if 1024 < m then 1024 else m)"
    if wt: "well_typed c" and m: "c ''split_height'' = Some (JInt m)"
    using m by (simp add: load_well_typed[OF wt] value_of_def int_of_def bound_def)
  ultimately show ?thesis
    using load_config_from_dict_form_ok[of f w "Object c"]
      name_length_overflow[of c n w f] split_height_overflow[of c m w f]
    by blast
qed

lemma well_typed_long_name: "well_typed long_name"
  by (simp add: well_typed_iff long_name_def is_text_def is_number_def is_flag_def c_int_def)

lemma well_typed_flat_split: "well_typed flat_split"
  by (simp add: well_typed_iff flat_split_def is_text_def is_number_def is_flag_def c_int_def)

lemma too_large_texts:
  "is_text (too_large ''assets_path'')" "is_text (too_large ''image_file'')"
  "is_text (too_large ''main_path'')"
  by (simp_all add: too_large_def default_config_def is_text_def)

lemma too_small_texts:
  "is_text (too_small ''assets_path'')" "is_text (too_small ''image_file'')"
  "is_text (too_small ''main_path'')" "is_number (too_small ''name_length'')"
  by (simp_all add: too_small_def default_config_def is_text_def is_number_def c_int_def)

theorem numbers_clamped_witness:
  "(well_typed long_name \<and> long_name ''name_length'' = Some (JInt 500) \<and>
    fst (load_config_from_dict (world_of quiet_tool) init_ui (Object long_name)) = None \<and>
    name_length_spin (snd (load_config_from_dict (world_of quiet_tool) init_ui (Object long_name)))
      = 128 \<and>
    form_ok init_ui \<and>
    form_ok (snd (load_config_from_dict (world_of quiet_tool) init_ui (Object long_name)))) \<and>
   (well_typed flat_split \<and> flat_split ''split_height'' = Some (JInt 0) \<and>
    fst (load_config_from_dict (world_of quiet_tool) init_ui (Object flat_split)) = None \<and>
    split_height_spin (snd (load_config_from_dict (world_of quiet_tool) init_ui (Object flat_split)))
      = 1) \<and>
   (too_large ''name_length'' = Some (JInt 2147483648) \<and> \<not> c_int 2147483648 \<and>
    is_text (too_large ''assets_path'') \<and> is_text (too_large ''image_file'') \<and>
    is_text (too_large ''main_path'') \<and>
    fst (load_config_from_dict (world_of quiet_tool) init_ui (Object too_large))
      = Some OverflowError \<and>
    name_length_spin (snd (load_config_from_dict (world_of quiet_tool) init_ui (Object too_large)))
      = name_length_spin init_ui) \<and>
   (too_small ''split_height'' = Some (JInt (- 2147483649)) \<and> \<not> c_int (- 2147483649) \<and>
    is_text (too_small ''assets_path'') \<and> is_text (too_small ''image_file'') \<and>
    is_text (too_small ''main_path'') \<and> is_number (too_small ''name_length'') \<and>
    fst (load_config_from_dict (world_of quiet_tool) init_ui (Object too_small))
      = Some OverflowError \<and>
    split_height_spin (snd (load_config_from_dict (world_of quiet_tool) init_ui (Object too_small)))
      = split_height_spin init_ui)"
proof -
  have v: "long_name ''name_length'' = Some (JInt 500)"
    "flat_split ''split_height'' = Some (JInt 0)"
    "too_large ''name_length'' = Some (JInt 2147483648)"
    "too_small ''split_height'' = Some (JInt (- 2147483649))"
    "\<not> c_int 2147483648" "\<not> c_int (- 2147483649)"
    by (simp_all add: long_name_def flat_split_def too_large_def too_small_def c_int_def)
  show ?thesis
    using numbers_clamped[where c = long_name and n = 500 and m = 0
            and w = "world_of quiet_tool" and f = init_ui]
      numbers_clamped[where c = flat_split and n = 0 and m = 0
            and w = "world_of quiet_tool" and f = init_ui]
      numbers_clamped[where c = too_large and n = 2147483648 and m = 0
            and w = "world_of quiet_tool" and f = init_ui]
      numbers_clamped[where c = too_small and n = 0 and m = "- 2147483649"
            and w = "world_of quiet_tool" and f = init_ui]
      well_typed_long_name well_typed_flat_split too_large_texts too_small_texts v
      form_ok_init_ui
    by simp
qed

text \<open>
  A \<open>name_length\<close> of \<open>2^31\<close> does not fit a C \<open>int\<close>: the binding raises
  OverflowError, the load fails and the spin box keeps its value.
\<close>

theorem numbers_clamped_counterexample:
  "too_large ''name_length'' = Some (JInt 2147483648) \<and>
   fst (load_config_from_dict (world_of quiet_tool) init_ui (Object too_large))
     = Some OverflowError \<and>
   name_length_spin (snd (load_config_from_dict (world_of quiet_tool) init_ui (Object too_large)))
     = 32"
  by (simp add: too_large_def default_config_def load_config_from_dict_def load_stmts_def
        load_defs load_image_file_def assign_def call_def setText_def setValue_def get_def
        init_ui_def c_int_def)

section \<open>A load that fails\<close>

lemma load_not_object:
  "load_config_from_dict w f Not_object = (Some AttributeError, f)"
  by (simp add: load_config_from_dict_def load_stmts_def load_assets_path_def assign_def
        call_def get_Not_object)

lemma later_stmts_keep_assets_path:
  assumes "t \<in> set (tl (load_stmts w c))" and "t g = Inr g'"
  shows "assets_path_edit g' = assets_path_edit g"
  using assms
  unfolding load_stmts_def
  by (auto simp: load_defs load_image_file_def load_support_format_def assign_def
        split: sum.splits json.splits if_splits)

lemma load_assets_path_written:
  assumes "c ''assets_path'' = Some (JStr s)"
  shows "assets_path_edit (snd (load_config_from_dict w f (Object c))) = s"
proof -
  have first: "load_assets_path (Object c) f = Inr (f\<lparr>assets_path_edit := s\<rparr>)"
    using assms by (simp add: load_assets_path_def assign_def call_def get_def setText_def)
  have l: "load_stmts w (Object c) = load_assets_path (Object c) # tl (load_stmts w (Object c))"
    by (simp add: load_stmts_def)
  have "assets_path_edit (snd (run_stmts (tl (load_stmts w (Object c)))
           (f\<lparr>assets_path_edit := s\<rparr>))) = s"
  proof (rule run_stmts_preserves[where P = "\<lambda>g. assets_path_edit g = s"])
    fix t g g' assume "t \<in> set (tl (load_stmts w (Object c)))" "assets_path_edit g = s" "t g = Inr g'"
    then show "assets_path_edit g' = s"
      using later_stmts_keep_assets_path by metis
  qed simp
  then show ?thesis
    unfolding load_config_from_dict_def by (subst l) (simp add: first)
qed

text \<open>
  C7. A file that cannot be read, or whose bytes \<open>json.load\<close> cannot decode or parse,
  makes \<open>load_config\<close> fail and leaves the form as it was. So do bytes that parse to a
  JSON value other than an object: the first statement of \<open>load_config_from_dict\<close>
  raises AttributeError before anything is written. When the bytes parse to an object
  and the load fails, the form is the one that the statements before the failing
  statement have written, and that statement has raised the error; in particular a
  string under \<open>assets_path\<close> is in the field of the image directory whether or not the
  load fails.
\<close>

theorem load_config_failure:
  "(read_file w file_path = Inl msg \<longrightarrow>
      load_config w (Some file_path) f = (Some (Raised msg), f)) \<and>
   (read_file w file_path = Inr bytes \<and> json_load w bytes = Inl msg \<longrightarrow>
      load_config w (Some file_path) f = (Some (Raised msg), f)) \<and>
   (read_file w file_path = Inr bytes \<and> json_load w bytes = Inr Not_object \<longrightarrow>
      load_config w (Some file_path) f = (Some (Failed AttributeError), f)) \<and>
   (read_file w file_path = Inr bytes \<and> json_load w bytes = Inr (Object c) \<and>
    fst (load_config w (Some file_path) f) \<noteq> None \<longrightarrow>
      (\<exists>n e. n < length (load_stmts w (Object c)) \<and>
         run_stmts (take n (load_stmts w (Object c))) f
           = (None, snd (load_config w (Some file_path) f)) \<and>
         (load_stmts w (Object c) ! n) (snd (load_config w (Some file_path) f)) = Inl e \<and>
         fst (load_config w (Some file_path) f) = Some (Failed e))) \<and>
   (read_file w file_path = Inr bytes \<and> json_load w bytes = Inr (Object c) \<and>
    c ''assets_path'' = Some (JStr s) \<longrightarrow>
      assets_path_edit (snd (load_config w (Some file_path) f)) = s)"
proof -
  have parsed: "\<exists>n e. n < length (load_stmts w (Object c)) \<and>
         run_stmts (take n (load_stmts w (Object c))) f
           = (None, snd (load_config w (Some file_path) f)) \<and>
         (load_stmts w (Object c) ! n) (snd (load_config w (Some file_path) f)) = Inl e \<and>
         fst (load_config w (Some file_path) f) = Some (Failed e)"
    if r: "read_file w file_path = Inr bytes" and j: "json_load w bytes = Inr (Object c)"
      and failed: "fst (load_config w (Some file_path) f) \<noteq> None"
  proof -
    obtain r' f' where l: "load_config_from_dict w f (Object c) = (r', f')"
      by (cases "load_config_from_dict w f (Object c)")
    with r j failed obtain e where e: "r' = Some e"
      by (cases r') (auto simp: load_config_def)
    with l have res: "load_config w (Some file_path) f = (Some (Failed e), f')"
      by (simp add: load_config_def r j)
    from l e have "fst (run_stmts (load_stmts w (Object c)) f) = Some e"
      "snd (run_stmts (load_stmts w (Object c)) f) = f'"
      by (simp_all add: load_config_from_dict_def)
    with run_stmts_fails[of "load_stmts w (Object c)" f e] res show ?thesis
      by auto
  qed
  have written: "assets_path_edit (snd (load_config w (Some file_path) f)) = s"
    if r: "read_file w file_path = Inr bytes" and j: "json_load w bytes = Inr (Object c)"
      and a: "c ''assets_path'' = Some (JStr s)"
    using load_assets_path_written[where c = c and s = s and w = w and f = f] a
    by (auto simp: load_config_def r j split: prod.splits option.splits)
  have unread: "load_config w (Some file_path) f = (Some (Raised msg), f)"
    if "read_file w file_path = Inl msg"
    using that by (simp add: load_config_def)
  have unparsed: "load_config w (Some file_path) f = (Some (Raised msg), f)"
    if "read_file w file_path = Inr bytes" "json_load w bytes = Inl msg"
    using that by (simp add: load_config_def)
  have other: "load_config w (Some file_path) f = (Some (Failed AttributeError), f)"
    if "read_file w file_path = Inr bytes" "json_load w bytes = Inr Not_object"
    using that by (simp add: load_config_def load_not_object)
  from unread unparsed other parsed written show ?thesis
    by blast
qed

lemma disk_files:
  "read_file (world_of p) ''gone.json'' = Inl ''No such file or directory''"
  "read_file (world_of p) ''broken.json'' = Inr ''{''"
  "json_load (world_of p) ''{'' = Inl ''Expecting property name''"
  "read_file (world_of p) ''list.json'' = Inr ''[1, 2]''"
  "json_load (world_of p) ''[1, 2]'' = Inr Not_object"
  "read_file (world_of p) ''bad.json'' = Inr bad_types_text"
  "json_load (world_of p) bad_types_text = Inr (Object bad_types)"
  by (simp_all add: world_of_def disk_def bad_types_text_def)

theorem load_config_failure_witness:
  "(read_file (world_of quiet_tool) ''gone.json'' = Inl ''No such file or directory'' \<and>
    load_config (world_of quiet_tool) (Some ''gone.json'') init_ui
      = (Some (Raised ''No such file or directory''), init_ui)) \<and>
   (read_file (world_of quiet_tool) ''broken.json'' = Inr ''{'' \<and>
    json_load (world_of quiet_tool) ''{'' = Inl ''Expecting property name'' \<and>
    load_config (world_of quiet_tool) (Some ''broken.json'') init_ui
      = (Some (Raised ''Expecting property name''), init_ui)) \<and>
   (read_file (world_of quiet_tool) ''list.json'' = Inr ''[1, 2]'' \<and>
    json_load (world_of quiet_tool) ''[1, 2]'' = Inr Not_object \<and>
    load_config (world_of quiet_tool) (Some ''list.json'') init_ui
      = (Some (Failed AttributeError), init_ui)) \<and>
   (read_file (world_of quiet_tool) ''bad.json'' = Inr bad_types_text \<and>
    json_load (world_of quiet_tool) bad_types_text = Inr (Object bad_types) \<and>
    bad_types ''assets_path'' = Some (JStr ''x'') \<and>
    fst (load_config (world_of quiet_tool) (Some ''bad.json'') init_ui) \<noteq> None \<and>
    assets_path_edit (snd (load_config (world_of quiet_tool) (Some ''bad.json'') init_ui)) = ''x'')"
proof -
  have x: "bad_types ''assets_path'' = Some (JStr ''x'')"
    by (simp add: bad_types_def)
  have failed: "fst (load_config (world_of quiet_tool) (Some ''bad.json'') init_ui) \<noteq> None"
    by (simp add: load_config_def disk_files bad_types_def load_config_from_dict_def
          load_stmts_def load_defs load_image_file_def assign_def call_def setText_def
          setValue_def get_def init_ui_def)
  show ?thesis
    using load_config_failure[where w = "world_of quiet_tool" and file_path = "''gone.json''"
            and msg = "''No such file or directory''" and f = init_ui and bytes = "[]"
            and c = Map.empty and s = "[]"]
      load_config_failure[where w = "world_of quiet_tool" and file_path = "''broken.json''"
            and msg = "''Expecting property name''" and f = init_ui and bytes = "''{''"
            and c = Map.empty and s = "[]"]
      load_config_failure[where w = "world_of quiet_tool" and file_path = "''list.json''"
            and msg = "[]" and f = init_ui and bytes = "''[1, 2]''"
            and c = Map.empty and s = "[]"]
      load_config_failure[where w = "world_of quiet_tool" and file_path = "''bad.json''"
            and msg = "[]" and f = init_ui and bytes = bad_types_text
            and c = bad_types and s = "''x''"]
      x failed
    by (simp add: disk_files)
qed

text \<open>
  A JSON object with a string under \<open>name_length\<close> makes the load fail, but after the
  image directory has been written: the failed load has changed a field.
\<close>

theorem load_config_counterexample:
  "fst (load_config (world_of quiet_tool) (Some ''bad.json'') init_ui) = Some (Failed TypeError) \<and>
   assets_path_edit (snd (load_config (world_of quiet_tool) (Some ''bad.json'') init_ui)) = ''x'' \<and>
   assets_path_edit init_ui = []"
  by (simp add: load_config_def disk_files bad_types_def load_config_from_dict_def
        load_stmts_def load_defs load_image_file_def assign_def call_def setText_def
        setValue_def get_def init_ui_def)

section \<open>The events of a run\<close>


lemma read_loop_returns:
  "list_all returns rs \<Longrightarrow>
   read_loop rs = (map (\<lambda>s. Progress (strip s)) (lines_of rs), Loop_ends)"
  by (induction rs rule: read_loop.induct) simp_all









lemma run_quiet_tool:
  "run (world_of quiet_tool) worker =
     ([Progress (msg_exec @ ''python ./spiffs_assets_gen.py --config /app/temp_config.json''),
       Finished True msg_done], True)"
  by (simp add: run_def quiet_tool_def world_of_def worker_def cmd_def after_loop_def)




text \<open>
  C4. When the script exists, the process starts, every read returns and the tool exits
  with status 0, the thread emits one progress event with the command line, then one
  progress event for each line of output, stripped and in the order of emission, then the
  terminal event of success and nothing more, and \<open>run\<close> returns.
\<close>

theorem run_success_events:
  assumes "path_exists w (script_path t)" and "popen w (cmd w t) = Inr p"
    and "list_all returns (stdout_readline p)" and "returns (stderr_read p)"
    and "returncode p = Some 0"
  shows "run w t = (Progress (msg_exec @ space_join (cmd w t))
                    # map (\<lambda>s. Progress (strip s)) (lines_of (stdout_readline p))
                    @ [Finished True msg_done], True)"
proof -
  have "after_loop 0 (stderr_read p) = ([Finished True msg_done], True)"
    using assms(4) by (cases "stderr_read p") (simp_all add: after_loop_def)
  then show ?thesis
    using assms(1,2,5) by (simp add: run_def read_loop_returns[OF assms(3)])
qed

lemma strip_examples:
  "strip ''pack a.png\<newline>'' = ''pack a.png''"
  "strip ''  done \<newline>'' = ''done''"
  "strip [CHR 0xE3, CHR 0x80, CHR 0x80, CHR ''o'', CHR ''k'', CHR ''\<newline>''] = ''ok''"
  by (simp_all add: strip_def space1_def space2_def space3_def)

theorem run_success_events_witness:
  "path_exists (world_of three_lines) (script_path worker) \<and>
   popen (world_of three_lines) (cmd (world_of three_lines) worker) = Inr three_lines \<and>
   list_all returns (stdout_readline three_lines) \<and> returns (stderr_read three_lines) \<and>
   returncode three_lines = Some 0 \<and>
   run (world_of three_lines) worker =
     ([Progress (msg_exec @ ''python ./spiffs_assets_gen.py --config /app/temp_config.json''),
       Progress ''pack a.png'', Progress ''done'', Progress ''ok'', Finished True msg_done],
      True)"
proof -
  have h: "path_exists (world_of three_lines) (script_path worker)"
    "popen (world_of three_lines) (cmd (world_of three_lines) worker) = Inr three_lines"
    "list_all returns (stdout_readline three_lines)" "returns (stderr_read three_lines)"
    "returncode three_lines = Some 0"
    by (simp_all add: world_of_def three_lines_def)
  have l: "lines_of (stdout_readline three_lines) =
             [''pack a.png\<newline>'', ''  done \<newline>'', [CHR 0xE3, CHR 0x80, CHR 0x80, CHR ''o'', CHR ''k'', CHR ''\<newline>'']]"
    by (simp add: three_lines_def)
  have c: "space_join (cmd (world_of three_lines) worker)
             = ''python ./spiffs_assets_gen.py --config /app/temp_config.json''"
    by (simp add: cmd_def world_of_def worker_def)
  show ?thesis
    using run_success_events[OF h] h
    by (simp add: l c strip_examples)
qed

text \<open>
  A tool that prints nothing and exits with 0: the run still delivers one progress event,
  the command line, before the terminal event.
\<close>

theorem run_success_counterexample:
  "lines_of (stdout_readline quiet_tool) = [] \<and> returncode quiet_tool = Some 0 \<and>
   run (world_of quiet_tool) worker =
     ([Progress (msg_exec @ ''python ./spiffs_assets_gen.py --config /app/temp_config.json''),
       Finished True msg_done], True)"
  by (simp add: run_quiet_tool) (simp add: quiet_tool_def)




section \<open>One build at a time\<close>





















section \<open>The input formats of a build\<close>





end
